theory Spec2Isabelle
  imports Complex_Main "HOL-Library.Sublist"
begin

section \<open>The token dashboard of \<^verbatim>\<open>static/js/dashboard.js\<close>\<close>

text \<open>
  The dashboard is a JavaScript class \<^verbatim>\<open>TokenDashboard\<close> that fetches a JSON document, renders
  one table row per token record and owns an auto-refresh timer. The embedding has three layers:
  the JavaScript values that \<^verbatim>\<open>JSON.parse\<close> can produce together with the language operators the
  source applies to them, the pure rendering functions, and the stateful operations on the
  controller and the page.
\<close>

subsection \<open>JavaScript values\<close>

text \<open>
  A JavaScript number is an IEEE double. Every finite double is a rational, so finite numbers are
  modelled by \<^typ>\<open>rat\<close> (a superset: comparison with \<open>0\<close> and \<open>5\<close> is exact on it, and \<open>-0\<close>
  behaves like \<open>0\<close> in every operation the source uses); the three special doubles are separate
  constructors.
\<close>

datatype jsnum = NaN | NegInf | Fin rat | PosInf

text \<open>
  Strings are byte lists holding UTF-8 text. \<open>JUndefined\<close> is the value of a property that is
  absent from an object.
\<close>

datatype jsval =
    JUndefined
  | JNull
  | JBool bool
  | JNum jsnum
  | JStr string
  | JArr "jsval list"
  | JObj "(string \<times> jsval) list"

text \<open>
  Exceptions are values. A \<open>TypeError\<close> is raised by the engine itself (the four situations the
  source can run into are listed in \<open>fault\<close>), \<open>Error\<close> is the \<^verbatim>\<open>new Error(message)\<close> of the
  source, and \<open>Rejected\<close> is the rejection of the promise of \<^verbatim>\<open>fetch\<close> or of \<^verbatim>\<open>response.json()\<close>,
  with its message.
\<close>

datatype fault =
    ReadOfNullish string
  | WriteOfNull string
  | NotAFunction string
  | NoPrimitive

datatype js_error = TypeError fault | Error string | Rejected string

definition bindE :: "'err + 'a \<Rightarrow> ('a \<Rightarrow> 'err + 'b) \<Rightarrow> 'err + 'b" where
  "bindE m f = (case m of Inl e \<Rightarrow> Inl e | Inr x \<Rightarrow> f x)"

text \<open>
  What the source takes from the browser and the engine without defining it: the clock, the
  parsing and printing of dates and of numbers outside the plain integers, and the wording of
  engine-raised messages. The clock is read once per render: the two \<^verbatim>\<open>new Date()\<close> of one row
  are taken to be the same instant \<open>now\<close> (milliseconds since the epoch).
\<close>

record browser =
  now :: int
  dateParse :: "string \<Rightarrow> int option"
  stringToNumber :: "string \<Rightarrow> jsnum"
  numberToString :: "rat \<Rightarrow> string"
  parseInt :: "string \<Rightarrow> jsnum"
  toLocaleString :: "int \<Rightarrow> string"
  toLocaleTimeString :: "int \<Rightarrow> string"
  typeErrorMessage :: "fault \<Rightarrow> string"

fun message :: "browser \<Rightarrow> js_error \<Rightarrow> string" where
  "message B (TypeError f) = typeErrorMessage B f"
| "message B (Error m) = m"
| "message B (Rejected m) = m"

subsubsection \<open>Operators\<close>

text \<open>Truthiness, as tested by \<^verbatim>\<open>!x\<close>, \<^verbatim>\<open>if (x)\<close> and \<^verbatim>\<open>x || y\<close>.\<close>

fun truthy :: "jsval \<Rightarrow> bool" where
  "truthy JUndefined = False"
| "truthy JNull = False"
| "truthy (JBool b) = b"
| "truthy (JNum n) = (n \<noteq> NaN \<and> n \<noteq> Fin 0)"
| "truthy (JStr s) = (s \<noteq> [])"
| "truthy (JArr xs) = True"
| "truthy (JObj kvs) = True"

definition js_or :: "jsval \<Rightarrow> jsval \<Rightarrow> jsval" where
  "js_or a b = (if truthy a then a else b)"

definition nullish :: "jsval \<Rightarrow> bool" where
  "nullish v = (v = JUndefined \<or> v = JNull)"

text \<open>The operator \<^verbatim>\<open>a ?? b\<close>.\<close>

definition coalesce :: "jsval \<Rightarrow> jsval \<Rightarrow> jsval" where
  "coalesce a b = (if nullish a then b else a)"

text \<open>\<^verbatim>\<open>v === n\<close> for a number \<open>n\<close>: no conversion, and \<open>NaN\<close> equals nothing.\<close>

definition strictEqNum :: "jsval \<Rightarrow> jsnum \<Rightarrow> bool" where
  "strictEqNum v n = (case v of JNum m \<Rightarrow> m \<noteq> NaN \<and> m = n | _ \<Rightarrow> False)"

text \<open>Decimal digits of a natural number.\<close>

fun showNat :: "nat \<Rightarrow> string" where
  "showNat n =
     (if n < 10 then [''0123456789'' ! n]
      else showNat (n div 10) @ [''0123456789'' ! (n mod 10)])"

declare showNat.simps [simp del]

text \<open>
  \<^verbatim>\<open>Number::toString\<close>. An integer of magnitude at most \<open>2^53\<close> is a double and prints as its
  decimal digits. The printing of every other finite number (the shortest digits that read back
  as the same double, an exponent from \<open>10^21\<close> on) is the browser's.
\<close>

definition numToString :: "browser \<Rightarrow> jsnum \<Rightarrow> string" where
  "numToString B n =
     (case n of
        NaN \<Rightarrow> ''NaN''
      | PosInf \<Rightarrow> ''Infinity''
      | NegInf \<Rightarrow> ''-Infinity''
      | Fin q \<Rightarrow>
          if q = of_int \<lfloor>q\<rfloor> \<and> \<bar>q\<bar> \<le> 2 ^ 53
          then (if q < 0 then ''-'' else []) @ showNat (nat \<bar>\<lfloor>q\<rfloor>\<bar>)
          else numberToString B q)"

fun sequenceE :: "('e + 'a) list \<Rightarrow> 'e + 'a list" where
  "sequenceE [] = Inr []"
| "sequenceE (m # ms) =
     (case m of
        Inl e \<Rightarrow> Inl e
      | Inr x \<Rightarrow> (case sequenceE ms of Inl e \<Rightarrow> Inl e | Inr xs \<Rightarrow> Inr (x # xs)))"

fun join :: "string \<Rightarrow> string list \<Rightarrow> string" where
  "join sep [] = []"
| "join sep [x] = x"
| "join sep (x # y # ys) = x @ sep @ join sep (y # ys)"

text \<open>
  \<^verbatim>\<open>ToString\<close>, as applied by a template literal. An array prints its elements joined by commas,
  \<^verbatim>\<open>null\<close> and \<^verbatim>\<open>undefined\<close> elements as nothing. An object decoded from JSON prints as
  \<^verbatim>\<open>[object Object]\<close>, unless it has an entry named \<^verbatim>\<open>toString\<close>: that entry shadows the inherited
  method, it is not callable, and the conversion raises a \<open>TypeError\<close>.
\<close>

fun toStringJs :: "browser \<Rightarrow> jsval \<Rightarrow> js_error + string" where
  "toStringJs B JUndefined = Inr ''undefined''"
| "toStringJs B JNull = Inr ''null''"
| "toStringJs B (JBool b) = Inr (if b then ''true'' else ''false'')"
| "toStringJs B (JNum n) = Inr (numToString B n)"
| "toStringJs B (JStr s) = Inr s"
| "toStringJs B (JArr xs) =
     bindE (sequenceE (map (\<lambda>x. if x = JUndefined \<or> x = JNull then Inr [] else toStringJs B x) xs))
       (\<lambda>ss. Inr (join '','' ss))"
| "toStringJs B (JObj kvs) =
     (if ''toString'' \<in> set (map fst kvs) then Inl (TypeError NoPrimitive)
      else Inr ''[object Object]'')"

text \<open>\<^verbatim>\<open>ToPrimitive\<close>: arrays and objects become their string, primitives stay.\<close>

definition toPrimitive :: "browser \<Rightarrow> jsval \<Rightarrow> js_error + jsval" where
  "toPrimitive B v =
     (case v of
        JArr xs \<Rightarrow> bindE (toStringJs B v) (\<lambda>s. Inr (JStr s))
      | JObj kvs \<Rightarrow> bindE (toStringJs B v) (\<lambda>s. Inr (JStr s))
      | _ \<Rightarrow> Inr v)"

text \<open>\<^verbatim>\<open>ToNumber\<close> of a primitive.\<close>

fun primToNumber :: "browser \<Rightarrow> jsval \<Rightarrow> jsnum" where
  "primToNumber B JUndefined = NaN"
| "primToNumber B JNull = Fin 0"
| "primToNumber B (JBool b) = Fin (if b then 1 else 0)"
| "primToNumber B (JNum n) = n"
| "primToNumber B (JStr s) = stringToNumber B s"
| "primToNumber B (JArr xs) = NaN"
| "primToNumber B (JObj kvs) = NaN"

definition toNumber :: "browser \<Rightarrow> jsval \<Rightarrow> js_error + jsnum" where
  "toNumber B v = bindE (toPrimitive B v) (\<lambda>p. Inr (primToNumber B p))"

fun num_le :: "jsnum \<Rightarrow> jsnum \<Rightarrow> bool" where
  "num_le NaN y = False"
| "num_le x NaN = False"
| "num_le NegInf y = True"
| "num_le x PosInf = True"
| "num_le (Fin a) (Fin b) = (a \<le> b)"
| "num_le (Fin a) NegInf = False"
| "num_le PosInf y = False"

text \<open>\<^verbatim>\<open>v <= n\<close> for a number \<open>n\<close>: \<open>v\<close> is converted to a number, and \<open>NaN\<close> compares false.\<close>

definition lessEqNum :: "browser \<Rightarrow> jsval \<Rightarrow> jsnum \<Rightarrow> js_error + bool" where
  "lessEqNum B v n = bindE (toNumber B v) (\<lambda>x. Inr (num_le x n))"

text \<open>
  Property access \<^verbatim>\<open>v.name\<close> for the names the source reads. On \<^verbatim>\<open>null\<close> and \<^verbatim>\<open>undefined\<close> it
  raises; an object yields its entry or \<^verbatim>\<open>undefined\<close>; arrays and strings have a \<^verbatim>\<open>length\<close> (of a
  string: its UTF-16 code units, one per UTF-8 lead byte and two for a four-byte sequence).
\<close>

definition utf16Length :: "string \<Rightarrow> nat" where
  "utf16Length s =
     length (filter (\<lambda>c. of_char c div (64::nat) \<noteq> 2) s) +
     length (filter (\<lambda>c. (240::nat) \<le> of_char c) s)"

definition getProp :: "jsval \<Rightarrow> string \<Rightarrow> js_error + jsval" where
  "getProp v name =
     (case v of
        JUndefined \<Rightarrow> Inl (TypeError (ReadOfNullish name))
      | JNull \<Rightarrow> Inl (TypeError (ReadOfNullish name))
      | JObj kvs \<Rightarrow> Inr (case map_of kvs name of Some x \<Rightarrow> x | None \<Rightarrow> JUndefined)
      | JArr xs \<Rightarrow> Inr (if name = ''length'' then JNum (Fin (of_nat (length xs))) else JUndefined)
      | JStr s \<Rightarrow> Inr (if name = ''length'' then JNum (Fin (of_nat (utf16Length s))) else JUndefined)
      | _ \<Rightarrow> Inr JUndefined)"

subsubsection \<open>Dates\<close>

text \<open>
  A \<^verbatim>\<open>Date\<close> is its time value, \<open>None\<close> for the invalid date. \<^verbatim>\<open>new Date(v)\<close> parses a string
  and clips a number to the representable range, truncating towards zero.
\<close>

definition timeClip :: "jsnum \<Rightarrow> int option" where
  "timeClip n =
     (case n of
        Fin q \<Rightarrow>
          if \<bar>q\<bar> \<le> 8640000000000000 then Some (if 0 \<le> q then \<lfloor>q\<rfloor> else \<lceil>q\<rceil>) else None
      | _ \<Rightarrow> None)"

definition newDate :: "browser \<Rightarrow> jsval \<Rightarrow> js_error + int option" where
  "newDate B v =
     bindE (toPrimitive B v)
       (\<lambda>p. Inr (case p of JStr s \<Rightarrow> dateParse B s | _ \<Rightarrow> timeClip (primToNumber B p)))"

subsection \<open>Rendering\<close>

text \<open>
  \<^verbatim>\<open>escapeHtml\<close> stores its argument as the text of a fresh \<^verbatim>\<open>div\<close> and reads the markup back.
  The browser serialises a text node by replacing \<^verbatim>\<open>&\<close>, \<^verbatim>\<open><\<close>, \<^verbatim>\<open>>\<close> and the no-break space
  (U+00A0, the bytes \<open>0xC2 0xA0\<close>) by their entities. Assigning \<^verbatim>\<open>null\<close> or \<^verbatim>\<open>undefined\<close> to
  \<^verbatim>\<open>textContent\<close> empties the element; any other value is converted to a string.
\<close>

definition escapeChar :: "char \<Rightarrow> string" where
  "escapeChar c =
     (if c = CHR ''&'' then ''&amp;''
      else if c = CHR ''<'' then ''&lt;''
      else if c = CHR ''>'' then ''&gt;''
      else [c])"

fun escapeText :: "string \<Rightarrow> string" where
  "escapeText [] = []"
| "escapeText [c] = escapeChar c"
| "escapeText (c # d # cs) =
     (if c = CHR 0xC2 \<and> d = CHR 0xA0 then ''&nbsp;'' @ escapeText cs
      else escapeChar c @ escapeText (d # cs))"

definition escapeHtml :: "browser \<Rightarrow> jsval \<Rightarrow> js_error + string" where
  "escapeHtml B text =
     (if text = JUndefined \<or> text = JNull then Inr []
      else bindE (toStringJs B text) (\<lambda>s. Inr (escapeText s)))"

text \<open>
  A token record: the six properties the source reads from an element of \<^verbatim>\<open>data.tokens\<close>.
  Reading a property of \<^verbatim>\<open>null\<close> or \<^verbatim>\<open>undefined\<close> raises; the first property that
  \<^verbatim>\<open>createTokenRow\<close> reads is \<^verbatim>\<open>expires_at\<close>.
\<close>

record token =
  user_email :: jsval
  token_preview :: jsval
  auth_type :: jsval
  remaining_usage :: jsval
  expires_at :: jsval
  last_used :: jsval

definition readToken :: "jsval \<Rightarrow> js_error + token" where
  "readToken v =
     bindE (getProp v ''expires_at'') (\<lambda>ex.
     bindE (getProp v ''remaining_usage'') (\<lambda>ru.
     bindE (getProp v ''user_email'') (\<lambda>ue.
     bindE (getProp v ''token_preview'') (\<lambda>tp.
     bindE (getProp v ''auth_type'') (\<lambda>au.
     bindE (getProp v ''last_used'') (\<lambda>lu.
       Inr \<lparr>user_email = ue, token_preview = tp, auth_type = au,
            remaining_usage = ru, expires_at = ex, last_used = lu\<rparr>))))))"

definition isExpired :: "browser \<Rightarrow> token \<Rightarrow> js_error + bool" where
  "isExpired B token =
     (if \<not> truthy (expires_at token) then Inr False
      else bindE (newDate B (expires_at token))
             (\<lambda>d. Inr (case d of None \<Rightarrow> False | Some t \<Rightarrow> t < now B)))"

definition getStatusClass :: "browser \<Rightarrow> token \<Rightarrow> js_error + string" where
  "getStatusClass B token =
     bindE (isExpired B token) (\<lambda>expired.
       if expired then Inr ''status-expired''
       else
         let remaining = coalesce (remaining_usage token) (JNum (Fin 0)) in
         if strictEqNum remaining (Fin 0) then Inr ''status-exhausted''
         else bindE (lessEqNum B remaining (Fin 5))
                (\<lambda>low. if low then Inr ''status-low'' else Inr ''status-active''))"

definition getStatusText :: "browser \<Rightarrow> token \<Rightarrow> js_error + string" where
  "getStatusText B token =
     bindE (isExpired B token) (\<lambda>expired.
       if expired then Inr ''Expired''
       else
         let remaining = coalesce (remaining_usage token) (JNum (Fin 0)) in
         if strictEqNum remaining (Fin 0) then Inr ''Exhausted''
         else bindE (lessEqNum B remaining (Fin 5))
                (\<lambda>low. if low then Inr ''Low'' else Inr ''Active''))"

text \<open>
  \<^verbatim>\<open>formatDateTime\<close>: an exception of the \<^verbatim>\<open>try\<close> block is caught and gives the dash, as do a
  falsy argument and an invalid date.
\<close>

definition formatDateTime :: "browser \<Rightarrow> jsval \<Rightarrow> string" where
  "formatDateTime B dateStr =
     (if \<not> truthy dateStr then ''-''
      else
        (case newDate B dateStr of
           Inl e \<Rightarrow> ''-''
         | Inr None \<Rightarrow> ''-''
         | Inr (Some t) \<Rightarrow> toLocaleString B t))"

text \<open>
  Markup is the text of a template literal. \<open>nl k\<close> is a line break of the literal followed by
  \<open>k\<close> spaces of indentation.
\<close>

type_synonym markup = string

definition nl :: "nat \<Rightarrow> markup" where
  "nl k = CHR 0x0A # replicate k (CHR '' '')"

text \<open>The template literal of \<^verbatim>\<open>createTokenRow\<close> as a function of its nine substitutions.\<close>

definition tokenRowTemplate ::
  "markup \<Rightarrow> markup \<Rightarrow> markup \<Rightarrow> markup \<Rightarrow> markup \<Rightarrow> markup \<Rightarrow> markup \<Rightarrow> markup \<Rightarrow> markup \<Rightarrow> markup"
where
  "tokenRowTemplate index email preview auth usage expires used statusClass statusText =
     nl 12 @ ''<tr data-index=\"'' @ index @ ''\">'' @
     nl 16 @ ''<td>'' @ email @ ''</td>'' @
     nl 16 @ ''<td><span class=\"token-preview\">'' @ preview @ ''</span></td>'' @
     nl 16 @ ''<td>'' @ auth @ ''</td>'' @
     nl 16 @ ''<td>'' @ usage @ ''</td>'' @
     nl 16 @ ''<td>'' @ expires @ ''</td>'' @
     nl 16 @ ''<td>'' @ used @ ''</td>'' @
     nl 16 @ ''<td><span class=\"status-badge '' @ statusClass @ ''\">'' @ statusText @
       ''</span></td>'' @
     nl 12 @ ''</tr>'' @
     nl 8"

definition createTokenRow :: "browser \<Rightarrow> token \<Rightarrow> nat \<Rightarrow> js_error + string" where
  "createTokenRow B token index =
     bindE (getStatusClass B token) (\<lambda>statusClass.
     bindE (getStatusText B token) (\<lambda>statusText.
     bindE (escapeHtml B (js_or (user_email token) (JStr ''unknown''))) (\<lambda>email.
     bindE (escapeHtml B (js_or (token_preview token) (JStr ''N/A''))) (\<lambda>preview.
     bindE (escapeHtml B (js_or (auth_type token) (JStr ''social''))) (\<lambda>auth.
     bindE (toStringJs B (coalesce (remaining_usage token) (JNum (Fin 0)))) (\<lambda>usage.
       Inr (tokenRowTemplate (showNat index) email preview auth usage
              (formatDateTime B (expires_at token)) (formatDateTime B (last_used token))
              statusClass statusText)))))))"

definition loadingMarkup :: markup where
  "loadingMarkup =
     nl 12 @ ''<tr>'' @
     nl 16 @ ''<td colspan=\"7\" class=\"loading\">'' @
     nl 20 @ ''<div class=\"spinner\"></div>'' @
     nl 20 @ ''Loading token data...'' @
     nl 16 @ ''</td>'' @
     nl 12 @ ''</tr>'' @
     nl 8"

definition errorTemplate :: "markup \<Rightarrow> markup" where
  "errorTemplate msg =
     nl 12 @ ''<tr>'' @
     nl 16 @ ''<td colspan=\"7\">'' @
     nl 20 @ ''<div class=\"error\">'' @ msg @ ''</div>'' @
     nl 16 @ ''</td>'' @
     nl 12 @ ''</tr>'' @
     nl 8"

definition emptyMarkup :: markup where
  "emptyMarkup =
     nl 12 @ ''<tr>'' @
     nl 16 @ ''<td colspan=\"7\">'' @
     nl 20 @ ''<div class=\"empty-state\">'' @
     nl 24 @ ''<div class=\"empty-state-icon\">~</div>'' @
     nl 24 @ ''<p>No token data available</p>'' @
     nl 20 @ ''</div>'' @
     nl 16 @ ''</td>'' @
     nl 12 @ ''</tr>'' @
     nl 8"

subsection \<open>The controller and the page\<close>

text \<open>
  The state is the fields of the \<^verbatim>\<open>TokenDashboard\<close> object together with what it reads and writes
  in the page: the markup of \<^verbatim>\<open>#tokenTableBody\<close>, the text of \<^verbatim>\<open>#totalTokens\<close>, \<^verbatim>\<open>#activeTokens\<close> and
  \<^verbatim>\<open>#lastUpdate\<close>, the \<^verbatim>\<open>.switch\<close> element, and the interval timers of the window whose callback is
  \<^verbatim>\<open>refreshTokens\<close>. An element that the lookup does not find is \<open>None\<close>. The cosmetic timers (the
  button and row transitions, the counting animation) are left out: an animated counter holds its
  final text at once.
\<close>

record switch =
  active :: bool
  aria_checked :: "string option"

record timer =
  handle :: nat
  period :: nat
  elapsed :: nat

record dashboard =
  autoRefreshInterval :: "nat option"
  isAutoRefreshEnabled :: bool
  apiBaseUrl :: string
  refreshIntervalMs :: nat
  tokenTableBody :: "string option"
  totalTokens :: "string option"
  activeTokens :: "string option"
  lastUpdate :: "string option"
  switchEl :: "switch option"
  timers :: "timer list"

text \<open>An operation that may raise after it has changed the state.\<close>

type_synonym 'a action = "dashboard \<Rightarrow> (js_error + 'a) \<times> dashboard"

definition thenS :: "unit action \<Rightarrow> 'a action \<Rightarrow> 'a action" where
  "thenS f g s = (case f s of (Inl e, s') \<Rightarrow> (Inl e, s') | (Inr u, s') \<Rightarrow> g s')"

subsubsection \<open>Timers\<close>

text \<open>
  \<^verbatim>\<open>setInterval\<close> returns a handle that is positive and not in use; \<^verbatim>\<open>clearInterval\<close> removes
  the timer. \<open>advance d\<close> lets \<open>d\<close> milliseconds pass and returns how many times the timers
  called \<^verbatim>\<open>refreshTokens\<close> in between; a timer of period \<open>p > 0\<close> fires each time its elapsed
  time reaches a multiple of \<open>p\<close>.
\<close>

definition setInterval :: "nat \<Rightarrow> dashboard \<Rightarrow> nat \<times> dashboard" where
  "setInterval ms s =
     (let h = Suc (fold max (map handle (timers s)) 0)
      in (h, s\<lparr>timers := timers s @ [\<lparr>handle = h, period = ms, elapsed = 0\<rparr>]\<rparr>))"

definition clearInterval :: "nat \<Rightarrow> dashboard \<Rightarrow> dashboard" where
  "clearInterval h s = s\<lparr>timers := filter (\<lambda>t. handle t \<noteq> h) (timers s)\<rparr>"

definition firings :: "nat \<Rightarrow> timer \<Rightarrow> nat" where
  "firings d t = (elapsed t + d) div period t - elapsed t div period t"

definition advance :: "nat \<Rightarrow> dashboard \<Rightarrow> nat \<times> dashboard" where
  "advance d s =
     (sum_list (map (firings d) (timers s)),
      s\<lparr>timers := map (\<lambda>t. t\<lparr>elapsed := elapsed t + d\<rparr>) (timers s)\<rparr>)"

subsubsection \<open>Auto-refresh\<close>

definition startAutoRefresh :: "dashboard \<Rightarrow> dashboard" where
  "startAutoRefresh s =
     (case setInterval (refreshIntervalMs s) s of
        (h, s') \<Rightarrow> s'\<lparr>autoRefreshInterval := Some h, isAutoRefreshEnabled := True\<rparr>)"

text \<open>The test \<^verbatim>\<open>if (this.autoRefreshInterval)\<close> is one of truthiness: \<^verbatim>\<open>null\<close> and \<open>0\<close> fail it.\<close>

definition stopAutoRefresh :: "dashboard \<Rightarrow> dashboard" where
  "stopAutoRefresh s =
     (let s' =
        (case autoRefreshInterval s of
           None \<Rightarrow> s
         | Some h \<Rightarrow> if h \<noteq> 0 then (clearInterval h s)\<lparr>autoRefreshInterval := None\<rparr> else s)
      in s'\<lparr>isAutoRefreshEnabled := False\<rparr>)"

text \<open>
  \<^verbatim>\<open>toggleAutoRefresh\<close> looks the switch up and uses it without a test: when the page has none,
  the timer and the flag have changed already and the access to \<^verbatim>\<open>classList\<close> raises.
\<close>

definition withSwitch :: "(switch \<Rightarrow> switch) \<Rightarrow> unit action" where
  "withSwitch f s =
     (case switchEl s of
        None \<Rightarrow> (Inl (TypeError (ReadOfNullish ''classList'')), s)
      | Some w \<Rightarrow> (Inr (), s\<lparr>switchEl := Some (f w)\<rparr>))"

definition toggleAutoRefresh :: "unit action" where
  "toggleAutoRefresh s =
     (if isAutoRefreshEnabled s
      then withSwitch (\<lambda>w. w\<lparr>active := False, aria_checked := Some ''false''\<rparr>) (stopAutoRefresh s)
      else withSwitch (\<lambda>w. w\<lparr>active := True, aria_checked := Some ''true''\<rparr>) (startAutoRefresh s))"

subsubsection \<open>The table\<close>

definition setInnerHTML :: "string \<Rightarrow> unit action" where
  "setInnerHTML markup s =
     (case tokenTableBody s of
        None \<Rightarrow> (Inl (TypeError (WriteOfNull ''innerHTML'')), s)
      | Some old \<Rightarrow> (Inr (), s\<lparr>tokenTableBody := Some markup\<rparr>))"

definition showLoading :: "unit action" where
  "showLoading = setInnerHTML loadingMarkup"

definition showError :: "browser \<Rightarrow> string \<Rightarrow> unit action" where
  "showError B msg s =
     (case escapeHtml B (JStr msg) of
        Inl e \<Rightarrow> (Inl e, s)
      | Inr escaped \<Rightarrow> setInnerHTML (errorTemplate escaped) s)"

definition showEmpty :: "unit action" where
  "showEmpty = setInnerHTML emptyMarkup"

text \<open>
  \<^verbatim>\<open>updateTokenTable\<close>. Only an array has a \<^verbatim>\<open>map\<close> method; calling it on any other value
  raises. The rows are built before the table body is assigned, so a row that raises leaves the
  body as it was. The transitions of the new rows are cosmetic and not modelled.
\<close>

definition tokensEmpty :: "jsval \<Rightarrow> js_error + bool" where
  "tokensEmpty tokens =
     (if \<not> truthy tokens then Inr True
      else bindE (getProp tokens ''length'') (\<lambda>len. Inr (strictEqNum len (Fin 0))))"

definition tokenRows :: "browser \<Rightarrow> jsval \<Rightarrow> js_error + string list" where
  "tokenRows B tokens =
     (case tokens of
        JArr xs \<Rightarrow>
          sequenceE (map (\<lambda>(index, v). bindE (readToken v) (\<lambda>token. createTokenRow B token index))
                       (enumerate 0 xs))
      | _ \<Rightarrow> Inl (TypeError (NotAFunction ''map'')))"

definition updateTokenTable :: "browser \<Rightarrow> jsval \<Rightarrow> unit action" where
  "updateTokenTable B data s =
     (case bindE (getProp data ''tokens'') (\<lambda>tokens.
             bindE (tokensEmpty tokens) (\<lambda>empty. Inr (tokens, empty))) of
        Inl e \<Rightarrow> (Inl e, s)
      | Inr (tokens, True) \<Rightarrow> showEmpty s
      | Inr (tokens, False) \<Rightarrow>
          (case tokenRows B tokens of
             Inl e \<Rightarrow> (Inl e, s)
           | Inr rows \<Rightarrow> setInnerHTML (concat rows) s))"

subsubsection \<open>The status bar\<close>

text \<open>
  \<^verbatim>\<open>animateNumber\<close> on the counter read by \<open>get\<close> and written by \<open>upd\<close>. The subtraction
  \<^verbatim>\<open>targetValue - currentValue\<close> converts the target to a number and may raise; the last step
  of the animation assigns the target to the text of the element (in a timer callback: nothing
  that it raises reaches the caller of \<^verbatim>\<open>animateNumber\<close>).
\<close>

definition animateNumber ::
  "browser \<Rightarrow> (dashboard \<Rightarrow> string option) \<Rightarrow>
   ((string option \<Rightarrow> string option) \<Rightarrow> dashboard \<Rightarrow> dashboard) \<Rightarrow> jsval \<Rightarrow> unit action"
where
  "animateNumber B get upd targetValue s =
     (case get s of
        None \<Rightarrow> (Inr (), s)
      | Some text \<Rightarrow>
          (case js_or (JNum (parseInt B text)) (JNum (Fin 0)) of
             JNum currentValue \<Rightarrow>
               if strictEqNum targetValue currentValue then (Inr (), s)
               else
                 (case toNumber B targetValue of
                    Inl e \<Rightarrow> (Inl e, s)
                  | Inr n \<Rightarrow>
                      (case toStringJs B targetValue of
                         Inl e \<Rightarrow> (Inr (), s)
                       | Inr t \<Rightarrow> (Inr (), upd (\<lambda>old. Some t) s)))
           | _ \<Rightarrow> (Inr (), s)))"

definition updateStatusBar :: "browser \<Rightarrow> jsval \<Rightarrow> unit action" where
  "updateStatusBar B data s =
     (case getProp data ''total_tokens'' of
        Inl e \<Rightarrow> (Inl e, s)
      | Inr tot \<Rightarrow>
          thenS (animateNumber B totalTokens totalTokens_update (js_or tot (JNum (Fin 0))))
            (\<lambda>s'. case getProp data ''active_tokens'' of
                    Inl e \<Rightarrow> (Inl e, s')
                  | Inr act \<Rightarrow>
                      animateNumber B activeTokens activeTokens_update
                        (js_or act (JNum (Fin 0))) s')
            s)"

definition updateElement ::
  "(dashboard \<Rightarrow> string option) \<Rightarrow> ((string option \<Rightarrow> string option) \<Rightarrow> dashboard \<Rightarrow> dashboard) \<Rightarrow>
   string \<Rightarrow> unit action"
where
  "updateElement get upd content s =
     (case get s of None \<Rightarrow> (Inr (), s) | Some old \<Rightarrow> (Inr (), upd (\<lambda>old. Some content) s))"

definition updateLastUpdateTime :: "browser \<Rightarrow> unit action" where
  "updateLastUpdateTime B = updateElement lastUpdate lastUpdate_update (toLocaleTimeString B (now B))"

subsubsection \<open>The refresh cycle\<close>

text \<open>
  A response carries its status, its reason phrase and the outcome of decoding its body as JSON.
  The outcome of \<^verbatim>\<open>fetch\<close> is a rejection (a network error) or a response. The cycle is modelled
  without another event running between its two \<^verbatim>\<open>await\<close> points.
\<close>

record response =
  status :: nat
  statusText :: string
  json :: "js_error + jsval"

definition ok :: "response \<Rightarrow> bool" where
  "ok r = (200 \<le> status r \<and> status r \<le> 299)"

type_synonym fetched = "js_error + response"

text \<open>The body of the \<^verbatim>\<open>try\<close> block.\<close>

definition tryRefresh :: "browser \<Rightarrow> fetched \<Rightarrow> unit action" where
  "tryRefresh B outcome s =
     (case outcome of
        Inl e \<Rightarrow> (Inl e, s)
      | Inr r \<Rightarrow>
          if \<not> ok r
          then (Inl (Error (''HTTP '' @ showNat (status r) @ '': '' @ statusText r)), s)
          else
            (case json r of
               Inl e \<Rightarrow> (Inl e, s)
             | Inr data \<Rightarrow>
                 thenS (updateTokenTable B data)
                   (thenS (updateStatusBar B data) (updateLastUpdateTime B)) s))"

definition refreshTokens :: "browser \<Rightarrow> fetched \<Rightarrow> unit action" where
  "refreshTokens B outcome s =
     (case showLoading s of
        (Inl e, s') \<Rightarrow> (Inl e, s')
      | (Inr u, s') \<Rightarrow>
          (case tryRefresh B outcome s' of
             (Inr u', s'') \<Rightarrow> (Inr (), s'')
           | (Inl error, s'') \<Rightarrow> showError B (''Failed to load: '' @ message B error) s''))"

text \<open>
  The constructor sets the fields and calls \<^verbatim>\<open>init\<close>, which binds the listeners (the events are
  the operations above) and starts the first refresh.
\<close>

definition newDashboard ::
  "string option \<Rightarrow> string option \<Rightarrow> string option \<Rightarrow> string option \<Rightarrow> switch option \<Rightarrow> dashboard"
where
  "newDashboard tbody tot act upd sw =
     \<lparr>autoRefreshInterval = None, isAutoRefreshEnabled = False, apiBaseUrl = ''/api'',
      refreshIntervalMs = 30000, tokenTableBody = tbody, totalTokens = tot,
      activeTokens = act, lastUpdate = upd, switchEl = sw, timers = []\<rparr>"

definition init :: "browser \<Rightarrow> fetched \<Rightarrow> unit action" where
  "init B outcome s = (Inr (), snd (refreshTokens B outcome s))"

definition handleRefreshClick :: "browser \<Rightarrow> fetched \<Rightarrow> unit action" where
  "handleRefreshClick B outcome = refreshTokens B outcome"

subsection \<open>A browser and a page for examples\<close>

definition sampleBrowser :: browser where
  "sampleBrowser =
     \<lparr>now = 1700000000000,
      dateParse = (\<lambda>s. if s = ''2020-01-01T00:00:00Z'' then Some 1577836800000 else None),
      stringToNumber = (\<lambda>s. if s = ''3'' then Fin 3 else NaN),
      numberToString = (\<lambda>q. ''0.5''),
      parseInt = (\<lambda>s. if s = ''7'' then Fin 7 else NaN),
      toLocaleString = (\<lambda>t. ''01/01/2020, 00:00''),
      toLocaleTimeString = (\<lambda>t. ''12:00:00''),
      typeErrorMessage = (\<lambda>f. ''type error'')\<rparr>"

definition samplePage :: dashboard where
  "samplePage =
     newDashboard (Some []) (Some ''7'') (Some ''7'') (Some ''-'')
       (Some \<lparr>active = False, aria_checked = Some ''false''\<rparr>)"

definition absentToken :: token where
  "absentToken =
     \<lparr>user_email = JUndefined, token_preview = JUndefined, auth_type = JUndefined,
      remaining_usage = JUndefined, expires_at = JUndefined, last_used = JUndefined\<rparr>"

definition lowToken :: token where
  "lowToken =
     \<lparr>user_email = JStr ''a@b.com'', token_preview = JUndefined, auth_type = JUndefined,
      remaining_usage = JNum (Fin 3), expires_at = JNull, last_used = JUndefined\<rparr>"

subsection \<open>Notions used in the statements\<close>

text \<open>
  Text is escaped when it holds no \<^verbatim>\<open><\<close> and no \<^verbatim>\<open>>\<close> and each \<^verbatim>\<open>&\<close> in it opens one of the four
  entities that the serialisation of a text node produces.
\<close>

fun escaped :: "string \<Rightarrow> bool" where
  "escaped [] = True"
| "escaped (c # cs) =
     (c \<noteq> CHR ''<'' \<and> c \<noteq> CHR ''>'' \<and>
      (c = CHR ''&'' \<longrightarrow>
         prefix ''amp;'' cs \<or> prefix ''lt;'' cs \<or> prefix ''gt;'' cs \<or> prefix ''nbsp;'' cs) \<and>
      escaped cs)"

text \<open>A primitive value is one that is neither an array nor an object.\<close>

fun primitive :: "jsval \<Rightarrow> bool" where
  "primitive (JArr xs) = False"
| "primitive (JObj kvs) = False"
| "primitive v = True"

definition scriptToken :: token where
  "scriptToken =
     \<lparr>user_email = JStr ''<script>'', token_preview = JStr ''a&b'', auth_type = JStr [],
      remaining_usage = JStr ''<b>9</b>'', expires_at = JStr ''2020-01-01T00:00:00Z'',
      last_used = JStr ''yesterday''\<rparr>"

text \<open>
  Two records for the limits of the defaults: one whose \<^verbatim>\<open>user_email\<close> is an object with an entry
  named \<^verbatim>\<open>toString\<close>, one whose \<^verbatim>\<open>remaining_usage\<close> is a string that is not a number.
\<close>

definition objectToken :: token where
  "objectToken =
     \<lparr>user_email = JObj [(''toString'', JNum (Fin 1))], token_preview = JUndefined,
      auth_type = JUndefined, remaining_usage = JUndefined, expires_at = JUndefined,
      last_used = JUndefined\<rparr>"

definition malformedToken :: token where
  "malformedToken =
     \<lparr>user_email = JUndefined, token_preview = JUndefined, auth_type = JUndefined,
      remaining_usage = JStr ''abc'', expires_at = JUndefined, last_used = JUndefined\<rparr>"

text \<open>
  The flag agrees with the timer when auto-refresh is enabled exactly if a handle is held. A held
  handle is one that \<^verbatim>\<open>setInterval\<close> issued when it is positive.
\<close>

definition flagMatchesTimer :: "dashboard \<Rightarrow> bool" where
  "flagMatchesTimer s = (isAutoRefreshEnabled s = (autoRefreshInterval s \<noteq> None))"

definition handleIssued :: "dashboard \<Rightarrow> bool" where
  "handleIssued s = (case autoRefreshInterval s of None \<Rightarrow> True | Some h \<Rightarrow> 0 < h)"

text \<open>A character that the serialisation of a text node leaves as it is.\<close>

definition plainChar :: "char \<Rightarrow> bool" where
  "plainChar c = (c \<noteq> CHR ''&'' \<and> c \<noteq> CHR ''<'' \<and> c \<noteq> CHR ''>'' \<and> c \<noteq> CHR 0xC2)"

text \<open>Two states with the same controller fields, switch and timers.\<close>

definition sameController :: "dashboard \<Rightarrow> dashboard \<Rightarrow> bool" where
  "sameController s s' =
     (autoRefreshInterval s' = autoRefreshInterval s \<and>
      isAutoRefreshEnabled s' = isAutoRefreshEnabled s \<and>
      refreshIntervalMs s' = refreshIntervalMs s \<and>
      switchEl s' = switchEl s \<and> timers s' = timers s)"

text \<open>The example of the specification: one record with three uses left and no expiry.\<close>

definition exampleData :: jsval where
  "exampleData =
     JObj [(''tokens'', JArr [JObj [(''user_email'', JStr ''a@b.com''),
                                    (''remaining_usage'', JNum (Fin 3)),
                                    (''expires_at'', JNull)]]),
           (''total_tokens'', JNum (Fin 1)), (''active_tokens'', JNum (Fin 1))]"

definition emptyResponse :: response where
  "emptyResponse =
     \<lparr>status = 200, statusText = ''OK'',
      json = Inr (JObj [(''tokens'', JArr []), (''total_tokens'', JNum (Fin 0))])\<rparr>"

section \<open>Properties\<close>

subsection \<open>Basic facts\<close>

lemma bindE_simps [simp]: "bindE (Inr x) f = f x" "bindE (Inl e) f = Inl e"
  by (simp_all add: bindE_def)

lemma lessEqNum_Fin: "lessEqNum B (JNum (Fin q)) (Fin r) = Inr (q \<le> r)"
  by (simp add: lessEqNum_def toNumber_def toPrimitive_def)

lemma isExpired_eq:
  assumes "newDate B (expires_at t) = Inr d"
  shows "isExpired B t =
    Inr (truthy (expires_at t) \<and> (case d of None \<Rightarrow> False | Some time \<Rightarrow> time < now B))"
  using assms by (simp add: isExpired_def)

lemma showNat_examples [simp]:
  "showNat 0 = ''0''" "showNat (Suc 0) = ''1''" "showNat 3 = ''3''" "showNat 4 = ''4''"
  "showNat 503 = ''503''"
  by (simp_all add: showNat.simps)

lemma numToString_zero: "numToString B (Fin 0) = ''0''"
  by (simp add: numToString_def showNat_examples)

lemma newDate_JNull: "newDate B JNull = Inr (Some 0)"
  by (simp add: newDate_def toPrimitive_def timeClip_def)

lemma sample_date: "newDate sampleBrowser (JStr ''2020-01-01T00:00:00Z'') = Inr (Some 1577836800000)"
  by (simp add: newDate_def toPrimitive_def sampleBrowser_def)

lemma sample_date_bad: "newDate sampleBrowser (JStr ''yesterday'') = Inr None"
  by (simp add: newDate_def toPrimitive_def sampleBrowser_def)

lemma scriptToken_fields:
  "user_email scriptToken = JStr ''<script>''"
  "token_preview scriptToken = JStr ''a&b''"
  "auth_type scriptToken = JStr []"
  "remaining_usage scriptToken = JStr ''<b>9</b>''"
  "expires_at scriptToken = JStr ''2020-01-01T00:00:00Z''"
  "last_used scriptToken = JStr ''yesterday''"
  by (simp_all add: scriptToken_def)

subsection \<open>Status labels\<close>

text \<open>
  C1. Let \<open>d\<close> be the date that \<^verbatim>\<open>new Date(token.expires_at)\<close> constructs. If \<^verbatim>\<open>expires_at\<close> is
  present (truthy) and \<open>d\<close> is valid and strictly before the current instant, the label is
  \<^verbatim>\<open>Expired\<close> and the class \<^verbatim>\<open>status-expired\<close>, whatever the remaining usage is. Otherwise, for a
  remaining usage that is a natural number \<open>n\<close> (the data model's \<^verbatim>\<open>integer \<ge> 0\<close>), the label is
  \<^verbatim>\<open>Exhausted\<close> for \<open>n = 0\<close>, \<^verbatim>\<open>Low\<close> for \<open>1 \<le> n \<le> 5\<close> and \<^verbatim>\<open>Active\<close> in the remaining case \<open>n > 5\<close>,
  each with its own class. The four labels are pairwise different, and so are the four classes.
\<close>

theorem status_precedence:
  assumes "newDate B (expires_at t) = Inr d"
  shows "(truthy (expires_at t) \<and> (case d of None \<Rightarrow> False | Some time \<Rightarrow> time < now B) \<longrightarrow>
            getStatusText B t = Inr ''Expired'' \<and> getStatusClass B t = Inr ''status-expired'')
     \<and> (\<not> (truthy (expires_at t) \<and> (case d of None \<Rightarrow> False | Some time \<Rightarrow> time < now B)) \<and>
          remaining_usage t = JNum (Fin (of_nat n)) \<longrightarrow>
            (getStatusText B t, getStatusClass B t) =
              (if n = 0 then (Inr ''Exhausted'', Inr ''status-exhausted'')
               else if 1 \<le> n \<and> n \<le> 5 then (Inr ''Low'', Inr ''status-low'')
               else (Inr ''Active'', Inr ''status-active''))
            \<and> (n = 0 \<or> (1 \<le> n \<and> n \<le> 5) \<or> 5 < n))
     \<and> distinct [''Expired'', ''Exhausted'', ''Low'', ''Active'']
     \<and> distinct [''status-expired'', ''status-exhausted'', ''status-low'', ''status-active'']"
  using assms
  by (auto simp add: getStatusText_def getStatusClass_def isExpired_eq coalesce_def nullish_def
      strictEqNum_def lessEqNum_Fin)

theorem status_precedence_witness:
  "newDate sampleBrowser (expires_at lowToken) = Inr (Some 0) \<and>
   remaining_usage lowToken = JNum (Fin (of_nat 3)) \<and>
   getStatusText sampleBrowser lowToken = Inr ''Low'' \<and>
   getStatusClass sampleBrowser lowToken = Inr ''status-low'' \<and>
   newDate sampleBrowser (expires_at scriptToken) = Inr (Some 1577836800000) \<and>
   truthy (expires_at scriptToken) \<and> 1577836800000 < now sampleBrowser \<and>
   getStatusText sampleBrowser scriptToken = Inr ''Expired'' \<and>
   getStatusClass sampleBrowser scriptToken = Inr ''status-expired''"
proof -
  have d: "newDate sampleBrowser (expires_at lowToken) = Inr (Some 0)"
    by (simp add: lowToken_def newDate_JNull)
  have u: "remaining_usage lowToken = JNum (Fin (of_nat 3))"
    by (simp add: lowToken_def)
  have low: "getStatusText sampleBrowser lowToken = Inr ''Low'' \<and>
      getStatusClass sampleBrowser lowToken = Inr ''status-low''"
    using u status_precedence [OF d, of 3] by (simp add: lowToken_def)
  have x: "newDate sampleBrowser (expires_at scriptToken) = Inr (Some 1577836800000)"
    by (simp add: scriptToken_fields sample_date)
  have p: "truthy (expires_at scriptToken)" "1577836800000 < now sampleBrowser"
    by (simp_all add: scriptToken_fields sampleBrowser_def)
  have "getStatusText sampleBrowser scriptToken = Inr ''Expired'' \<and>
      getStatusClass sampleBrowser scriptToken = Inr ''status-expired''"
    using p status_precedence [OF x, of 0] by simp
  then show ?thesis
    using d u low x p by simp
qed

subsection \<open>Rows\<close>

lemma escapeHtml_JStr: "escapeHtml B (JStr s) = Inr (escapeText s)"
  by (simp add: escapeHtml_def)

lemma escaped_escapeText: "escaped (escapeText x)"
  by (induction x rule: escapeText.induct) (auto simp add: escapeChar_def)

lemma js_or_JStr: "js_or (JStr s) (JStr d) = JStr (if s = [] then d else s)"
  by (simp add: js_or_def)

text \<open>
  The text of a row, and what a call of \<^verbatim>\<open>createTokenRow\<close> that returns has computed. The
  operand of \<^verbatim>\<open>escapeHtml\<close> in a row is never \<^verbatim>\<open>null\<close> or \<^verbatim>\<open>undefined\<close>: a falsy field has been
  replaced by its default.
\<close>

lemma tokenRowTemplate_text:
  "tokenRowTemplate i e p a u x l c txt =
     nl 12 @ ''<tr data-index=\"'' @ i @ ''\">'' @
     nl 16 @ ''<td>'' @ e @ ''</td>'' @
     nl 16 @ ''<td><span class=\"token-preview\">'' @ p @ ''</span></td>'' @
     nl 16 @ ''<td>'' @ a @ ''</td>'' @
     nl 16 @ ''<td>'' @ u @ ''</td>'' @
     nl 16 @ ''<td>'' @ x @ ''</td>'' @
     nl 16 @ ''<td>'' @ l @ ''</td>'' @
     nl 16 @ ''<td><span class=\"status-badge '' @ c @ ''\">'' @ txt @ ''</span></td>'' @
     nl 12 @ ''</tr>'' @
     nl 8"
  by (simp add: tokenRowTemplate_def)

lemma escapeHtml_js_or:
  "escapeHtml B (js_or v (JStr (c # cs))) =
     bindE (toStringJs B (js_or v (JStr (c # cs)))) (\<lambda>s. Inr (escapeText s))"
  by (cases v) (auto simp add: escapeHtml_def js_or_def)

lemma createTokenRow_Inr:
  assumes "createTokenRow B t i = Inr row"
  shows "\<exists>email preview auth usage statusClass statusText.
      toStringJs B (js_or (user_email t) (JStr ''unknown'')) = Inr email \<and>
      toStringJs B (js_or (token_preview t) (JStr ''N/A'')) = Inr preview \<and>
      toStringJs B (js_or (auth_type t) (JStr ''social'')) = Inr auth \<and>
      toStringJs B (coalesce (remaining_usage t) (JNum (Fin 0))) = Inr usage \<and>
      getStatusClass B t = Inr statusClass \<and> getStatusText B t = Inr statusText \<and>
      row = tokenRowTemplate (showNat i) (escapeText email) (escapeText preview)
              (escapeText auth) usage (formatDateTime B (expires_at t))
              (formatDateTime B (last_used t)) statusClass statusText"
  using assms
  by (auto simp add: createTokenRow_def escapeHtml_js_or bindE_def split: sum.splits)

text \<open>
  C2. For every token record, every row that \<^verbatim>\<open>createTokenRow\<close> returns is the row markup whose
  first three cells hold \<open>escapeText\<close> of the text of \<^verbatim>\<open>user_email\<close>, \<^verbatim>\<open>token_preview\<close> and
  \<^verbatim>\<open>auth_type\<close>: the string itself for a non-empty string field, the default \<^verbatim>\<open>unknown\<close>, \<^verbatim>\<open>N/A\<close>
  or \<^verbatim>\<open>social\<close> for an absent, empty or otherwise falsy field, the string conversion of any other
  value. The text in each of the three cells is escaped: it has no \<^verbatim>\<open><\<close> or \<^verbatim>\<open>>\<close>, and every
  \<^verbatim>\<open>&\<close> in it opens an entity.
\<close>

theorem user_strings_escaped:
  assumes "createTokenRow B t i = Inr row"
  shows "\<exists>email preview auth usage statusClass statusText.
      toStringJs B (js_or (user_email t) (JStr ''unknown'')) = Inr email \<and>
      toStringJs B (js_or (token_preview t) (JStr ''N/A'')) = Inr preview \<and>
      toStringJs B (js_or (auth_type t) (JStr ''social'')) = Inr auth \<and>
      toStringJs B (coalesce (remaining_usage t) (JNum (Fin 0))) = Inr usage \<and>
      getStatusClass B t = Inr statusClass \<and> getStatusText B t = Inr statusText \<and>
      row =
        nl 12 @ ''<tr data-index=\"'' @ showNat i @ ''\">'' @
        nl 16 @ ''<td>'' @ escapeText email @ ''</td>'' @
        nl 16 @ ''<td><span class=\"token-preview\">'' @ escapeText preview @ ''</span></td>'' @
        nl 16 @ ''<td>'' @ escapeText auth @ ''</td>'' @
        nl 16 @ ''<td>'' @ usage @ ''</td>'' @
        nl 16 @ ''<td>'' @ formatDateTime B (expires_at t) @ ''</td>'' @
        nl 16 @ ''<td>'' @ formatDateTime B (last_used t) @ ''</td>'' @
        nl 16 @ ''<td><span class=\"status-badge '' @ statusClass @ ''\">'' @ statusText @
          ''</span></td>'' @
        nl 12 @ ''</tr>'' @
        nl 8 \<and>
      escaped (escapeText email) \<and> escaped (escapeText preview) \<and> escaped (escapeText auth) \<and>
      (\<forall>s. user_email t = JStr s \<longrightarrow> email = (if s = [] then ''unknown'' else s)) \<and>
      (\<forall>s. token_preview t = JStr s \<longrightarrow> preview = (if s = [] then ''N/A'' else s)) \<and>
      (\<forall>s. auth_type t = JStr s \<longrightarrow> auth = (if s = [] then ''social'' else s)) \<and>
      (\<not> truthy (user_email t) \<longrightarrow> email = ''unknown'') \<and>
      (\<not> truthy (token_preview t) \<longrightarrow> preview = ''N/A'') \<and>
      (\<not> truthy (auth_type t) \<longrightarrow> auth = ''social'')"
proof -
  obtain email preview auth usage statusClass statusText where
    e: "toStringJs B (js_or (user_email t) (JStr ''unknown'')) = Inr email"
    and p: "toStringJs B (js_or (token_preview t) (JStr ''N/A'')) = Inr preview"
    and a: "toStringJs B (js_or (auth_type t) (JStr ''social'')) = Inr auth"
    and u: "toStringJs B (coalesce (remaining_usage t) (JNum (Fin 0))) = Inr usage"
    and c: "getStatusClass B t = Inr statusClass" and l: "getStatusText B t = Inr statusText"
    and row: "row = tokenRowTemplate (showNat i) (escapeText email) (escapeText preview)
              (escapeText auth) usage (formatDateTime B (expires_at t))
              (formatDateTime B (last_used t)) statusClass statusText"
    using createTokenRow_Inr [OF assms] by blast
  have se: "\<forall>s. user_email t = JStr s \<longrightarrow> email = (if s = [] then ''unknown'' else s)"
    using e by (auto simp add: js_or_JStr)
  have sp: "\<forall>s. token_preview t = JStr s \<longrightarrow> preview = (if s = [] then ''N/A'' else s)"
    using p by (auto simp add: js_or_JStr)
  have sa: "\<forall>s. auth_type t = JStr s \<longrightarrow> auth = (if s = [] then ''social'' else s)"
    using a by (auto simp add: js_or_JStr)
  have fe: "\<not> truthy (user_email t) \<longrightarrow> email = ''unknown''"
    using e by (auto simp add: js_or_def)
  have fp: "\<not> truthy (token_preview t) \<longrightarrow> preview = ''N/A''"
    using p by (auto simp add: js_or_def)
  have fa: "\<not> truthy (auth_type t) \<longrightarrow> auth = ''social''"
    using a by (auto simp add: js_or_def)
  show ?thesis
    using e p a u c l row [unfolded tokenRowTemplate_text] se sp sa fe fp fa
      escaped_escapeText [of email] escaped_escapeText [of preview] escaped_escapeText [of auth]
    by blast
qed

lemma scriptToken_status:
  "getStatusClass sampleBrowser scriptToken = Inr ''status-expired''"
  "getStatusText sampleBrowser scriptToken = Inr ''Expired''"
  by (simp_all add: getStatusClass_def getStatusText_def isExpired_def scriptToken_def
      sample_date, simp_all add: sampleBrowser_def)

lemma sample_format:
  "formatDateTime sampleBrowser (JStr ''2020-01-01T00:00:00Z'') = ''01/01/2020, 00:00''"
  "formatDateTime sampleBrowser (JStr ''yesterday'') = ''-''"
  by (simp_all add: formatDateTime_def sample_date sample_date_bad, simp add: sampleBrowser_def)

lemma lowToken_row:
  "createTokenRow sampleBrowser lowToken 0 =
     Inr (tokenRowTemplate ''0'' ''a@b.com'' ''N/A'' ''social'' ''3'' ''-'' ''-''
            ''status-low'' ''Low'')"
  by (simp add: createTokenRow_def getStatusClass_def getStatusText_def isExpired_def
      lowToken_def coalesce_def nullish_def strictEqNum_def lessEqNum_Fin js_or_def
      escapeHtml_JStr escapeChar_def numToString_def formatDateTime_def)

lemma scriptToken_row:
  "createTokenRow sampleBrowser scriptToken 0 =
     Inr (tokenRowTemplate ''0'' ''&lt;script&gt;'' ''a&amp;b'' ''social'' ''<b>9</b>''
            ''01/01/2020, 00:00'' ''-'' ''status-expired'' ''Expired'')"
  by (simp add: createTokenRow_def scriptToken_status scriptToken_fields sample_format js_or_def
      escapeHtml_JStr escapeChar_def coalesce_def nullish_def)

theorem user_strings_escaped_witness:
  "createTokenRow sampleBrowser scriptToken 0 =
     Inr (tokenRowTemplate ''0'' ''&lt;script&gt;'' ''a&amp;b'' ''social'' ''<b>9</b>''
            ''01/01/2020, 00:00'' ''-'' ''status-expired'' ''Expired'') \<and>
   escaped ''&lt;script&gt;'' \<and> escaped ''a&amp;b'' \<and> escaped ''social'' \<and>
   createTokenRow sampleBrowser lowToken 0 =
     Inr (tokenRowTemplate ''0'' ''a@b.com'' ''N/A'' ''social'' ''3'' ''-'' ''-''
            ''status-low'' ''Low'') \<and>
   escaped ''a@b.com'' \<and> escaped ''N/A''"
proof -
  have s: "escaped ''&lt;script&gt;'' \<and> escaped ''a&amp;b'' \<and> escaped ''social''"
    using user_strings_escaped [OF scriptToken_row]
    by (elim exE conjE) (simp add: scriptToken_fields escapeChar_def)
  have l: "escaped ''a@b.com'' \<and> escaped ''N/A''"
    using user_strings_escaped [OF lowToken_row]
    by (elim exE conjE) (simp add: lowToken_def escapeChar_def)
  show ?thesis
    using s l scriptToken_row lowToken_row by simp
qed

lemma sublist_tokenRowTemplate_usage:
  "sublist u (tokenRowTemplate i e p a u x l c txt)"
proof -
  have "tokenRowTemplate i e p a u x l c txt =
      (nl 12 @ ''<tr data-index=\"'' @ i @ ''\">'' @
       nl 16 @ ''<td>'' @ e @ ''</td>'' @
       nl 16 @ ''<td><span class=\"token-preview\">'' @ p @ ''</span></td>'' @
       nl 16 @ ''<td>'' @ a @ ''</td>'' @
       nl 16 @ ''<td>'') @ u @
      (''</td>'' @
       nl 16 @ ''<td>'' @ x @ ''</td>'' @
       nl 16 @ ''<td>'' @ l @ ''</td>'' @
       nl 16 @ ''<td><span class=\"status-badge '' @ c @ ''\">'' @ txt @ ''</span></td>'' @
       nl 12 @ ''</tr>'' @
       nl 8)"
    by (simp add: tokenRowTemplate_def)
  then show ?thesis
    unfolding sublist_def by blast
qed

text \<open>
  C10. When \<^verbatim>\<open>remaining_usage\<close> is a string \<open>s\<close>, the usage hole of the row holds \<open>s\<close> itself, so
  \<open>s\<close> occurs verbatim in every row that is produced; the holes that pass through \<^verbatim>\<open>escapeHtml\<close>
  are those of \<^verbatim>\<open>user_email\<close>, \<^verbatim>\<open>token_preview\<close> and \<^verbatim>\<open>auth_type\<close>, and \<^verbatim>\<open>showError\<close> escapes its
  message.
\<close>

theorem usage_not_escaped:
  assumes "remaining_usage t = JStr s"
  shows "createTokenRow B t i =
      bindE (getStatusClass B t) (\<lambda>statusClass.
      bindE (getStatusText B t) (\<lambda>statusText.
      bindE (escapeHtml B (js_or (user_email t) (JStr ''unknown''))) (\<lambda>email.
      bindE (escapeHtml B (js_or (token_preview t) (JStr ''N/A''))) (\<lambda>preview.
      bindE (escapeHtml B (js_or (auth_type t) (JStr ''social''))) (\<lambda>auth.
        Inr (tokenRowTemplate (showNat i) email preview auth s
               (formatDateTime B (expires_at t)) (formatDateTime B (last_used t))
               statusClass statusText))))))
    \<and> (\<forall>row. createTokenRow B t i = Inr row \<longrightarrow> sublist s row)
    \<and> showError B msg st = setInnerHTML (errorTemplate (escapeText msg)) st"
proof -
  have row: "createTokenRow B t i =
      bindE (getStatusClass B t) (\<lambda>statusClass.
      bindE (getStatusText B t) (\<lambda>statusText.
      bindE (escapeHtml B (js_or (user_email t) (JStr ''unknown''))) (\<lambda>email.
      bindE (escapeHtml B (js_or (token_preview t) (JStr ''N/A''))) (\<lambda>preview.
      bindE (escapeHtml B (js_or (auth_type t) (JStr ''social''))) (\<lambda>auth.
        Inr (tokenRowTemplate (showNat i) email preview auth s
               (formatDateTime B (expires_at t)) (formatDateTime B (last_used t))
               statusClass statusText))))))"
    using assms by (simp add: createTokenRow_def coalesce_def nullish_def)
  have "sublist s r" if "createTokenRow B t i = Inr r" for r
    using that unfolding row
    by (auto simp add: bindE_def sublist_tokenRowTemplate_usage split: sum.splits)
  moreover have "showError B msg st = setInnerHTML (errorTemplate (escapeText msg)) st"
    by (simp add: showError_def escapeHtml_JStr)
  ultimately show ?thesis
    using row by blast
qed

theorem usage_not_escaped_witness:
  "remaining_usage scriptToken = JStr ''<b>9</b>'' \<and>
   createTokenRow sampleBrowser scriptToken 0 =
     Inr (tokenRowTemplate ''0'' ''&lt;script&gt;'' ''a&amp;b'' ''social'' ''<b>9</b>''
            ''01/01/2020, 00:00'' ''-'' ''status-expired'' ''Expired'') \<and>
   sublist ''<b>9</b>''
     (tokenRowTemplate ''0'' ''&lt;script&gt;'' ''a&amp;b'' ''social'' ''<b>9</b>''
            ''01/01/2020, 00:00'' ''-'' ''status-expired'' ''Expired'')"
proof -
  have u: "remaining_usage scriptToken = JStr ''<b>9</b>''"
    by (simp add: scriptToken_def)
  have r: "createTokenRow sampleBrowser scriptToken 0 =
     Inr (tokenRowTemplate ''0'' ''&lt;script&gt;'' ''a&amp;b'' ''social'' ''<b>9</b>''
            ''01/01/2020, 00:00'' ''-'' ''status-expired'' ''Expired'')"
    using usage_not_escaped [OF u, of sampleBrowser 0]
    by (simp add: scriptToken_status scriptToken_fields sample_format js_or_def
        escapeHtml_JStr escapeChar_def)
  show ?thesis
    using u r usage_not_escaped [OF u, of sampleBrowser 0] by simp
qed

lemma absentToken_fields:
  "user_email absentToken = JUndefined"
  "token_preview absentToken = JUndefined"
  "auth_type absentToken = JUndefined"
  "remaining_usage absentToken = JUndefined"
  "expires_at absentToken = JUndefined"
  "last_used absentToken = JUndefined"
  by (simp_all add: absentToken_def)

lemma js_or_absent: "js_or JUndefined d = d" "js_or JNull d = d"
  by (simp_all add: js_or_def)

lemma formatDateTime_absent: "formatDateTime B JUndefined = ''-''" "formatDateTime B JNull = ''-''"
  by (simp_all add: formatDateTime_def)

text \<open>
  C9. For a token record whose \<^verbatim>\<open>remaining_usage\<close> is \<^verbatim>\<open>undefined\<close> or \<^verbatim>\<open>null\<close> and that is not
  expired, the label is \<^verbatim>\<open>Exhausted\<close> (class \<^verbatim>\<open>status-exhausted\<close>), and every row that
  \<^verbatim>\<open>createTokenRow\<close> returns for it is the row markup whose fourth cell, the usage column, is
  \<^verbatim>\<open><td>0</td>\<close> and whose badge reads \<^verbatim>\<open>Exhausted\<close>.
\<close>

theorem absent_usage_is_zero:
  assumes "remaining_usage t = JUndefined \<or> remaining_usage t = JNull"
    and "isExpired B t = Inr False"
  shows "getStatusText B t = Inr ''Exhausted'' \<and> getStatusClass B t = Inr ''status-exhausted'' \<and>
    createTokenRow B t i =
      bindE (escapeHtml B (js_or (user_email t) (JStr ''unknown''))) (\<lambda>email.
      bindE (escapeHtml B (js_or (token_preview t) (JStr ''N/A''))) (\<lambda>preview.
      bindE (escapeHtml B (js_or (auth_type t) (JStr ''social''))) (\<lambda>auth.
        Inr (tokenRowTemplate (showNat i) email preview auth ''0''
               (formatDateTime B (expires_at t)) (formatDateTime B (last_used t))
               ''status-exhausted'' ''Exhausted'')))) \<and>
    (\<forall>row. createTokenRow B t i = Inr row \<longrightarrow>
       (\<exists>email preview auth.
          escapeHtml B (js_or (user_email t) (JStr ''unknown'')) = Inr email \<and>
          escapeHtml B (js_or (token_preview t) (JStr ''N/A'')) = Inr preview \<and>
          escapeHtml B (js_or (auth_type t) (JStr ''social'')) = Inr auth \<and>
          row =
            nl 12 @ ''<tr data-index=\"'' @ showNat i @ ''\">'' @
            nl 16 @ ''<td>'' @ email @ ''</td>'' @
            nl 16 @ ''<td><span class=\"token-preview\">'' @ preview @ ''</span></td>'' @
            nl 16 @ ''<td>'' @ auth @ ''</td>'' @
            nl 16 @ ''<td>0</td>'' @
            nl 16 @ ''<td>'' @ formatDateTime B (expires_at t) @ ''</td>'' @
            nl 16 @ ''<td>'' @ formatDateTime B (last_used t) @ ''</td>'' @
            nl 16 @ ''<td><span class=\"status-badge status-exhausted\">Exhausted</span></td>'' @
            nl 12 @ ''</tr>'' @
            nl 8))"
proof -
  have st: "getStatusText B t = Inr ''Exhausted''" "getStatusClass B t = Inr ''status-exhausted''"
    using assms
    by (auto simp add: getStatusText_def getStatusClass_def coalesce_def nullish_def
        strictEqNum_def)
  have row: "createTokenRow B t i =
      bindE (escapeHtml B (js_or (user_email t) (JStr ''unknown''))) (\<lambda>email.
      bindE (escapeHtml B (js_or (token_preview t) (JStr ''N/A''))) (\<lambda>preview.
      bindE (escapeHtml B (js_or (auth_type t) (JStr ''social''))) (\<lambda>auth.
        Inr (tokenRowTemplate (showNat i) email preview auth ''0''
               (formatDateTime B (expires_at t)) (formatDateTime B (last_used t))
               ''status-exhausted'' ''Exhausted''))))"
    using assms(1) st
    by (auto simp add: createTokenRow_def coalesce_def nullish_def numToString_zero)
  have "\<exists>email preview auth.
          escapeHtml B (js_or (user_email t) (JStr ''unknown'')) = Inr email \<and>
          escapeHtml B (js_or (token_preview t) (JStr ''N/A'')) = Inr preview \<and>
          escapeHtml B (js_or (auth_type t) (JStr ''social'')) = Inr auth \<and>
          r =
            nl 12 @ ''<tr data-index=\"'' @ showNat i @ ''\">'' @
            nl 16 @ ''<td>'' @ email @ ''</td>'' @
            nl 16 @ ''<td><span class=\"token-preview\">'' @ preview @ ''</span></td>'' @
            nl 16 @ ''<td>'' @ auth @ ''</td>'' @
            nl 16 @ ''<td>0</td>'' @
            nl 16 @ ''<td>'' @ formatDateTime B (expires_at t) @ ''</td>'' @
            nl 16 @ ''<td>'' @ formatDateTime B (last_used t) @ ''</td>'' @
            nl 16 @ ''<td><span class=\"status-badge status-exhausted\">Exhausted</span></td>'' @
            nl 12 @ ''</tr>'' @
            nl 8"
    if "createTokenRow B t i = Inr r" for r
    using that unfolding row
    by (auto simp add: bindE_def tokenRowTemplate_text split: sum.splits)
  then show ?thesis
    using st row by blast
qed

theorem absent_usage_is_zero_witness:
  "(remaining_usage absentToken = JUndefined \<or> remaining_usage absentToken = JNull) \<and>
   isExpired sampleBrowser absentToken = Inr False \<and>
   getStatusText sampleBrowser absentToken = Inr ''Exhausted'' \<and>
   createTokenRow sampleBrowser absentToken 4 =
     Inr (nl 12 @ ''<tr data-index=\"4\">'' @
          nl 16 @ ''<td>unknown</td>'' @
          nl 16 @ ''<td><span class=\"token-preview\">N/A</span></td>'' @
          nl 16 @ ''<td>social</td>'' @
          nl 16 @ ''<td>0</td>'' @
          nl 16 @ ''<td>-</td>'' @
          nl 16 @ ''<td>-</td>'' @
          nl 16 @ ''<td><span class=\"status-badge status-exhausted\">Exhausted</span></td>'' @
          nl 12 @ ''</tr>'' @
          nl 8)"
proof -
  have u: "remaining_usage absentToken = JUndefined \<or> remaining_usage absentToken = JNull"
    by (simp add: absentToken_fields)
  have x: "isExpired sampleBrowser absentToken = Inr False"
    by (simp add: isExpired_def absentToken_fields)
  note t = absent_usage_is_zero [OF u x, of 4]
  have l: "getStatusText sampleBrowser absentToken = Inr ''Exhausted''"
    using t [THEN conjunct1] .
  have "createTokenRow sampleBrowser absentToken 4 =
      Inr (tokenRowTemplate ''4'' ''unknown'' ''N/A'' ''social'' ''0'' ''-'' ''-''
             ''status-exhausted'' ''Exhausted'')"
    using t [THEN conjunct2, THEN conjunct2, THEN conjunct1]
    by (simp add: absentToken_fields js_or_absent escapeHtml_JStr escapeChar_def
        formatDateTime_absent)
  then show ?thesis
    using u x l by (simp add: tokenRowTemplate_text)
qed

lemma toPrimitive_primitive: "primitive v \<Longrightarrow> toPrimitive B v = Inr v"
  by (cases v) (simp_all add: toPrimitive_def)

lemma toStringJs_primitive: "primitive v \<Longrightarrow> \<exists>s. toStringJs B v = Inr s"
  by (cases v) simp_all

lemma newDate_primitive: "primitive v \<Longrightarrow> \<exists>d. newDate B v = Inr d"
  by (simp add: newDate_def toPrimitive_primitive)

lemma lessEqNum_primitive: "primitive v \<Longrightarrow> \<exists>b. lessEqNum B v n = Inr b"
  by (simp add: lessEqNum_def toNumber_def toPrimitive_primitive)

lemma isExpired_primitive: "primitive (expires_at t) \<Longrightarrow> \<exists>b. isExpired B t = Inr b"
  using newDate_primitive [of "expires_at t" B] by (auto simp add: isExpired_def)

lemma primitive_coalesce: "primitive v \<Longrightarrow> primitive (coalesce v (JNum n))"
  by (simp add: coalesce_def)

lemma primitive_js_or: "primitive v \<Longrightarrow> primitive (js_or v (JStr d))"
  by (simp add: js_or_def)

lemma getStatusClass_primitive:
  assumes "primitive (expires_at t)" and "primitive (remaining_usage t)"
  shows "\<exists>c. getStatusClass B t = Inr c"
proof -
  obtain b where b: "isExpired B t = Inr b"
    using isExpired_primitive [OF assms(1)] by blast
  obtain low where low: "lessEqNum B (coalesce (remaining_usage t) (JNum (Fin 0))) (Fin 5) = Inr low"
    using lessEqNum_primitive [OF primitive_coalesce [OF assms(2)]] by blast
  show ?thesis
    by (simp add: getStatusClass_def b low Let_def)
qed

lemma getStatusText_primitive:
  assumes "primitive (expires_at t)" and "primitive (remaining_usage t)"
  shows "\<exists>c. getStatusText B t = Inr c"
proof -
  obtain b where b: "isExpired B t = Inr b"
    using isExpired_primitive [OF assms(1)] by blast
  obtain low where low: "lessEqNum B (coalesce (remaining_usage t) (JNum (Fin 0))) (Fin 5) = Inr low"
    using lessEqNum_primitive [OF primitive_coalesce [OF assms(2)]] by blast
  show ?thesis
    by (simp add: getStatusText_def b low Let_def)
qed

lemma escapeHtml_primitive: "primitive v \<Longrightarrow> \<exists>s. escapeHtml B v = Inr s"
  using toStringJs_primitive [of v B] by (auto simp add: escapeHtml_def)

lemma absentToken_status:
  "getStatusClass sampleBrowser absentToken = Inr ''status-exhausted''"
  "getStatusText sampleBrowser absentToken = Inr ''Exhausted''"
  by (simp_all add: getStatusClass_def getStatusText_def isExpired_def absentToken_fields
      coalesce_def nullish_def strictEqNum_def)

lemma malformedToken_row:
  "createTokenRow sampleBrowser malformedToken 0 =
     Inr (tokenRowTemplate ''0'' ''unknown'' ''N/A'' ''social'' ''abc'' ''-'' ''-''
            ''status-active'' ''Active'')"
  by (simp add: createTokenRow_def getStatusClass_def getStatusText_def isExpired_def
      malformedToken_def coalesce_def nullish_def strictEqNum_def js_or_def escapeHtml_JStr
      escapeChar_def formatDateTime_def lessEqNum_def toNumber_def toPrimitive_def
      sampleBrowser_def)

lemma objectToken_row: "createTokenRow sampleBrowser objectToken 0 = Inl (TypeError NoPrimitive)"
  by (simp add: createTokenRow_def getStatusClass_def getStatusText_def isExpired_def
      objectToken_def coalesce_def nullish_def strictEqNum_def js_or_def escapeHtml_def)

lemma objectToken_rows:
  "tokenRows sampleBrowser (JArr [JObj [], JObj [(''user_email'', JObj [(''toString'', JNum (Fin 1))])]]) =
     Inl (TypeError NoPrimitive)"
  by (simp add: tokenRows_def enumerate_eq_zip readToken_def getProp_def
      createTokenRow_def getStatusClass_def getStatusText_def isExpired_def
      coalesce_def nullish_def strictEqNum_def js_or_def escapeHtml_def escapeChar_def
      numToString_zero formatDateTime_def)

text \<open>
  C7, as stated, fails in three ways. A record without \<^verbatim>\<open>auth_type\<close> renders that cell as
  \<^verbatim>\<open>social\<close>, which is none of \<^verbatim>\<open>0\<close>, \<^verbatim>\<open>-\<close>, \<^verbatim>\<open>N/A\<close>, \<^verbatim>\<open>unknown\<close>. A malformed count, the string
  \<^verbatim>\<open>abc\<close>, is rendered as it is and not as a default. A record whose \<^verbatim>\<open>user_email\<close> is an object
  with an entry named \<^verbatim>\<open>toString\<close> makes \<^verbatim>\<open>createTokenRow\<close> raise, and with it the rendering of
  the whole list, a well-formed record before it included.
\<close>

theorem missing_fields_counterexample:
  "createTokenRow sampleBrowser absentToken 0 =
     Inr (nl 12 @ ''<tr data-index=\"0\">'' @
          nl 16 @ ''<td>unknown</td>'' @
          nl 16 @ ''<td><span class=\"token-preview\">N/A</span></td>'' @
          nl 16 @ ''<td>social</td>'' @
          nl 16 @ ''<td>0</td>'' @
          nl 16 @ ''<td>-</td>'' @
          nl 16 @ ''<td>-</td>'' @
          nl 16 @ ''<td><span class=\"status-badge status-exhausted\">Exhausted</span></td>'' @
          nl 12 @ ''</tr>'' @
          nl 8) \<and>
   auth_type absentToken = JUndefined \<and>
   ''social'' \<notin> {''0'', ''-'', ''N/A'', ''unknown''} \<and>
   remaining_usage malformedToken = JStr ''abc'' \<and>
   createTokenRow sampleBrowser malformedToken 0 =
     Inr (nl 12 @ ''<tr data-index=\"0\">'' @
          nl 16 @ ''<td>unknown</td>'' @
          nl 16 @ ''<td><span class=\"token-preview\">N/A</span></td>'' @
          nl 16 @ ''<td>social</td>'' @
          nl 16 @ ''<td>abc</td>'' @
          nl 16 @ ''<td>-</td>'' @
          nl 16 @ ''<td>-</td>'' @
          nl 16 @ ''<td><span class=\"status-badge status-active\">Active</span></td>'' @
          nl 12 @ ''</tr>'' @
          nl 8) \<and>
   ''abc'' \<notin> {''0'', ''-'', ''N/A'', ''unknown''} \<and>
   user_email objectToken = JObj [(''toString'', JNum (Fin 1))] \<and>
   createTokenRow sampleBrowser objectToken 0 = Inl (TypeError NoPrimitive) \<and>
   tokenRows sampleBrowser
     (JArr [JObj [], JObj [(''user_email'', JObj [(''toString'', JNum (Fin 1))])]]) =
     Inl (TypeError NoPrimitive)"
proof -
  have "createTokenRow sampleBrowser absentToken 0 =
     Inr (tokenRowTemplate ''0'' ''unknown'' ''N/A'' ''social'' ''0'' ''-'' ''-''
            ''status-exhausted'' ''Exhausted'')"
    by (simp add: createTokenRow_def absentToken_status absentToken_fields js_or_absent
        escapeHtml_JStr escapeChar_def formatDateTime_absent coalesce_def nullish_def
        numToString_zero)
  then show ?thesis
    by (simp add: tokenRowTemplate_text malformedToken_row objectToken_row objectToken_rows
        absentToken_fields) (simp add: malformedToken_def objectToken_def)
qed

text \<open>
  C7, amended. For a token record whose \<^verbatim>\<open>user_email\<close>, \<^verbatim>\<open>token_preview\<close>, \<^verbatim>\<open>auth_type\<close>,
  \<^verbatim>\<open>remaining_usage\<close> and \<^verbatim>\<open>expires_at\<close> are absent or primitive, \<^verbatim>\<open>createTokenRow\<close> returns the
  row markup, and an absent (\<^verbatim>\<open>undefined\<close> or \<^verbatim>\<open>null\<close>) field renders as its default: \<^verbatim>\<open>unknown\<close> for
  \<^verbatim>\<open>user_email\<close>, \<^verbatim>\<open>N/A\<close> for \<^verbatim>\<open>token_preview\<close>, \<^verbatim>\<open>social\<close> for \<^verbatim>\<open>auth_type\<close>, \<^verbatim>\<open>0\<close> for
  \<^verbatim>\<open>remaining_usage\<close>; a \<^verbatim>\<open>remaining_usage\<close> that is a string renders as that string; every
  absent date and every date that does not parse renders as the dash.
\<close>

theorem missing_fields_degrade:
  assumes "primitive (user_email t)" and "primitive (token_preview t)"
    and "primitive (auth_type t)" and "primitive (remaining_usage t)"
    and "primitive (expires_at t)"
  shows "\<exists>email preview auth usage statusClass statusText.
      escapeHtml B (js_or (user_email t) (JStr ''unknown'')) = Inr email \<and>
      escapeHtml B (js_or (token_preview t) (JStr ''N/A'')) = Inr preview \<and>
      escapeHtml B (js_or (auth_type t) (JStr ''social'')) = Inr auth \<and>
      toStringJs B (coalesce (remaining_usage t) (JNum (Fin 0))) = Inr usage \<and>
      getStatusClass B t = Inr statusClass \<and> getStatusText B t = Inr statusText \<and>
      createTokenRow B t i =
        Inr (nl 12 @ ''<tr data-index=\"'' @ showNat i @ ''\">'' @
             nl 16 @ ''<td>'' @ email @ ''</td>'' @
             nl 16 @ ''<td><span class=\"token-preview\">'' @ preview @ ''</span></td>'' @
             nl 16 @ ''<td>'' @ auth @ ''</td>'' @
             nl 16 @ ''<td>'' @ usage @ ''</td>'' @
             nl 16 @ ''<td>'' @ formatDateTime B (expires_at t) @ ''</td>'' @
             nl 16 @ ''<td>'' @ formatDateTime B (last_used t) @ ''</td>'' @
             nl 16 @ ''<td><span class=\"status-badge '' @ statusClass @ ''\">'' @ statusText @
               ''</span></td>'' @
             nl 12 @ ''</tr>'' @
             nl 8) \<and>
      (nullish (user_email t) \<longrightarrow> email = ''unknown'') \<and>
      (nullish (token_preview t) \<longrightarrow> preview = ''N/A'') \<and>
      (nullish (auth_type t) \<longrightarrow> auth = ''social'') \<and>
      (nullish (remaining_usage t) \<longrightarrow> usage = ''0'') \<and>
      (\<forall>s. remaining_usage t = JStr s \<longrightarrow> usage = s) \<and>
      (\<forall>d. nullish d \<or> newDate B d = Inr None \<longrightarrow> formatDateTime B d = ''-'')"
proof -
  obtain email where e: "escapeHtml B (js_or (user_email t) (JStr ''unknown'')) = Inr email"
    using escapeHtml_primitive [OF primitive_js_or [OF assms(1)]] by blast
  obtain preview where p: "escapeHtml B (js_or (token_preview t) (JStr ''N/A'')) = Inr preview"
    using escapeHtml_primitive [OF primitive_js_or [OF assms(2)]] by blast
  obtain auth where a: "escapeHtml B (js_or (auth_type t) (JStr ''social'')) = Inr auth"
    using escapeHtml_primitive [OF primitive_js_or [OF assms(3)]] by blast
  obtain usage where u: "toStringJs B (coalesce (remaining_usage t) (JNum (Fin 0))) = Inr usage"
    using toStringJs_primitive [OF primitive_coalesce [OF assms(4)]] by blast
  obtain statusClass where c: "getStatusClass B t = Inr statusClass"
    using getStatusClass_primitive [OF assms(5) assms(4)] by blast
  obtain statusText where l: "getStatusText B t = Inr statusText"
    using getStatusText_primitive [OF assms(5) assms(4)] by blast
  have row: "createTokenRow B t i =
        Inr (tokenRowTemplate (showNat i) email preview auth usage
               (formatDateTime B (expires_at t)) (formatDateTime B (last_used t))
               statusClass statusText)"
    by (simp add: createTokenRow_def e p a u c l)
  have de: "nullish (user_email t) \<longrightarrow> email = ''unknown''"
    using e by (auto simp add: nullish_def js_or_absent escapeHtml_JStr escapeChar_def)
  have dp: "nullish (token_preview t) \<longrightarrow> preview = ''N/A''"
    using p by (auto simp add: nullish_def js_or_absent escapeHtml_JStr escapeChar_def)
  have da: "nullish (auth_type t) \<longrightarrow> auth = ''social''"
    using a by (auto simp add: nullish_def js_or_absent escapeHtml_JStr escapeChar_def)
  have du: "nullish (remaining_usage t) \<longrightarrow> usage = ''0''"
    using u by (auto simp add: nullish_def coalesce_def numToString_zero)
  have ds: "\<forall>s. remaining_usage t = JStr s \<longrightarrow> usage = s"
    using u by (auto simp add: nullish_def coalesce_def)
  have dd: "\<forall>d. nullish d \<or> newDate B d = Inr None \<longrightarrow> formatDateTime B d = ''-''"
    by (auto simp add: nullish_def formatDateTime_def)
  show ?thesis
    using e p a u c l row [unfolded tokenRowTemplate_text] de dp da du ds dd by blast
qed

theorem missing_fields_degrade_witness:
  "primitive (user_email absentToken) \<and> primitive (token_preview absentToken) \<and>
   primitive (auth_type absentToken) \<and> primitive (remaining_usage absentToken) \<and>
   primitive (expires_at absentToken) \<and> nullish (auth_type absentToken) \<and>
   createTokenRow sampleBrowser absentToken 0 =
     Inr (nl 12 @ ''<tr data-index=\"0\">'' @
          nl 16 @ ''<td>unknown</td>'' @
          nl 16 @ ''<td><span class=\"token-preview\">N/A</span></td>'' @
          nl 16 @ ''<td>social</td>'' @
          nl 16 @ ''<td>0</td>'' @
          nl 16 @ ''<td>-</td>'' @
          nl 16 @ ''<td>-</td>'' @
          nl 16 @ ''<td><span class=\"status-badge status-exhausted\">Exhausted</span></td>'' @
          nl 12 @ ''</tr>'' @
          nl 8)"
proof -
  have f: "primitive (user_email absentToken)" "primitive (token_preview absentToken)"
    "primitive (auth_type absentToken)" "primitive (remaining_usage absentToken)"
    "primitive (expires_at absentToken)"
    by (simp_all add: absentToken_fields)
  have n: "nullish (user_email absentToken)" "nullish (token_preview absentToken)"
    "nullish (auth_type absentToken)" "nullish (remaining_usage absentToken)"
    by (simp_all add: absentToken_fields nullish_def)
  have "createTokenRow sampleBrowser absentToken 0 =
     Inr (nl 12 @ ''<tr data-index=\"0\">'' @
          nl 16 @ ''<td>unknown</td>'' @
          nl 16 @ ''<td><span class=\"token-preview\">N/A</span></td>'' @
          nl 16 @ ''<td>social</td>'' @
          nl 16 @ ''<td>0</td>'' @
          nl 16 @ ''<td>-</td>'' @
          nl 16 @ ''<td>-</td>'' @
          nl 16 @ ''<td><span class=\"status-badge status-exhausted\">Exhausted</span></td>'' @
          nl 12 @ ''</tr>'' @
          nl 8)"
    using missing_fields_degrade [OF f, of sampleBrowser 0] n
    by (elim exE conjE) (simp add: absentToken_status absentToken_fields formatDateTime_absent)
  then show ?thesis
    using f n by simp
qed

subsection \<open>Auto-refresh\<close>

lemma withSwitch_fields:
  "autoRefreshInterval (snd (withSwitch f s)) = autoRefreshInterval s"
  "isAutoRefreshEnabled (snd (withSwitch f s)) = isAutoRefreshEnabled s"
  "timers (snd (withSwitch f s)) = timers s"
  "refreshIntervalMs (snd (withSwitch f s)) = refreshIntervalMs s"
  by (simp_all add: withSwitch_def split: option.splits)

lemma startAutoRefresh_fields:
  "isAutoRefreshEnabled (startAutoRefresh s) = True"
  "autoRefreshInterval (startAutoRefresh s) = Some (Suc (fold max (map handle (timers s)) 0))"
  "timers (startAutoRefresh s) =
     timers s @ [\<lparr>handle = Suc (fold max (map handle (timers s)) 0),
                  period = refreshIntervalMs s, elapsed = 0\<rparr>]"
  "switchEl (startAutoRefresh s) = switchEl s"
  "refreshIntervalMs (startAutoRefresh s) = refreshIntervalMs s"
  by (simp_all add: startAutoRefresh_def setInterval_def Let_def)

lemma stopAutoRefresh_fields:
  "isAutoRefreshEnabled (stopAutoRefresh s) = False"
  "autoRefreshInterval (stopAutoRefresh s) =
     (case autoRefreshInterval s of None \<Rightarrow> None | Some h \<Rightarrow> if h \<noteq> 0 then None else Some h)"
  "timers (stopAutoRefresh s) =
     (case autoRefreshInterval s of
        None \<Rightarrow> timers s
      | Some h \<Rightarrow> if h \<noteq> 0 then filter (\<lambda>t. handle t \<noteq> h) (timers s) else timers s)"
  "switchEl (stopAutoRefresh s) = switchEl s"
  "refreshIntervalMs (stopAutoRefresh s) = refreshIntervalMs s"
  by (simp_all add: stopAutoRefresh_def clearInterval_def Let_def split: option.splits)

lemma toggle_flips: "isAutoRefreshEnabled (snd (toggleAutoRefresh s)) = (\<not> isAutoRefreshEnabled s)"
  by (simp add: toggleAutoRefresh_def withSwitch_fields startAutoRefresh_fields
      stopAutoRefresh_fields)

lemma toggle_mirror:
  assumes "switchEl s = Some w"
  shows "fst (toggleAutoRefresh s) = Inr () \<and>
    switchEl (snd (toggleAutoRefresh s)) =
      Some (w\<lparr>active := \<not> isAutoRefreshEnabled s,
               aria_checked := Some (if isAutoRefreshEnabled s then ''false'' else ''true'')\<rparr>)"
  using assms
  by (simp add: toggleAutoRefresh_def withSwitch_def startAutoRefresh_fields
      stopAutoRefresh_fields)

lemma toggle_on:
  assumes "\<not> isAutoRefreshEnabled s" and "timers s = []"
  shows "autoRefreshInterval (snd (toggleAutoRefresh s)) = Some 1 \<and>
    timers (snd (toggleAutoRefresh s)) =
      [\<lparr>handle = 1, period = refreshIntervalMs s, elapsed = 0\<rparr>] \<and>
    refreshIntervalMs (snd (toggleAutoRefresh s)) = refreshIntervalMs s"
  using assms
  by (simp add: toggleAutoRefresh_def withSwitch_fields startAutoRefresh_fields)

lemma toggle_off:
  assumes "isAutoRefreshEnabled s" and "autoRefreshInterval s = Some h" and "0 < h"
  shows "autoRefreshInterval (snd (toggleAutoRefresh s)) = None \<and>
    timers (snd (toggleAutoRefresh s)) = filter (\<lambda>t. handle t \<noteq> h) (timers s)"
  using assms
  by (simp add: toggleAutoRefresh_def withSwitch_fields stopAutoRefresh_fields)

lemma advance_no_timers: "timers s = [] \<Longrightarrow> fst (advance d s) = 0"
  by (simp add: advance_def)

text \<open>
  C6. From a state with auto-refresh off, no handle held, no timer running, a switch in the page
  and the constructor's period of 30000 ms: the first toggle raises nothing, sets the flag, starts
  one recurring timer of period 30000 (so that \<open>d\<close> milliseconds later it has called
  \<^verbatim>\<open>refreshTokens\<close> \<open>d div 30000\<close> times) and gives the switch the class \<^verbatim>\<open>active\<close> and
  \<^verbatim>\<open>aria-checked="true"\<close>; the second toggle raises nothing, clears the flag and the handle,
  leaves no timer (so that no amount of time calls \<^verbatim>\<open>refreshTokens\<close>) and gives the switch
  \<^verbatim>\<open>aria-checked="false"\<close> without the class. Every toggle flips the flag.
\<close>

theorem toggle_on_then_off:
  assumes "\<not> isAutoRefreshEnabled s" and "autoRefreshInterval s = None" and "timers s = []"
    and "switchEl s = Some w" and "refreshIntervalMs s = 30000"
  shows "fst (toggleAutoRefresh s) = Inr () \<and>
    isAutoRefreshEnabled (snd (toggleAutoRefresh s)) \<and>
    autoRefreshInterval (snd (toggleAutoRefresh s)) = Some 1 \<and>
    timers (snd (toggleAutoRefresh s)) = [\<lparr>handle = 1, period = 30000, elapsed = 0\<rparr>] \<and>
    fst (advance d (snd (toggleAutoRefresh s))) = d div 30000 \<and>
    switchEl (snd (toggleAutoRefresh s)) = Some (w\<lparr>active := True, aria_checked := Some ''true''\<rparr>) \<and>
    fst (toggleAutoRefresh (snd (toggleAutoRefresh s))) = Inr () \<and>
    \<not> isAutoRefreshEnabled (snd (toggleAutoRefresh (snd (toggleAutoRefresh s)))) \<and>
    autoRefreshInterval (snd (toggleAutoRefresh (snd (toggleAutoRefresh s)))) = None \<and>
    timers (snd (toggleAutoRefresh (snd (toggleAutoRefresh s)))) = [] \<and>
    fst (advance d (snd (toggleAutoRefresh (snd (toggleAutoRefresh s))))) = 0 \<and>
    switchEl (snd (toggleAutoRefresh (snd (toggleAutoRefresh s)))) =
      Some (w\<lparr>active := False, aria_checked := Some ''false''\<rparr>) \<and>
    (\<forall>s'. isAutoRefreshEnabled (snd (toggleAutoRefresh s')) = (\<not> isAutoRefreshEnabled s'))"
proof -
  let ?s1 = "snd (toggleAutoRefresh s)"
  let ?s2 = "snd (toggleAutoRefresh ?s1)"
  have on: "isAutoRefreshEnabled ?s1"
    using assms(1) by (simp add: toggle_flips)
  have t1: "autoRefreshInterval ?s1 = Some 1"
    "timers ?s1 = [\<lparr>handle = 1, period = 30000, elapsed = 0\<rparr>]"
    using toggle_on [OF assms(1) assms(3)] assms(5) by simp_all
  have m1: "fst (toggleAutoRefresh s) = Inr ()"
    "switchEl ?s1 = Some (w\<lparr>active := True, aria_checked := Some ''true''\<rparr>)"
    using toggle_mirror [OF assms(4)] assms(1) by simp_all
  have a1: "fst (advance d ?s1) = d div 30000"
    by (simp add: advance_def t1 firings_def)
  have off: "\<not> isAutoRefreshEnabled ?s2"
    using on by (simp add: toggle_flips)
  have t2: "autoRefreshInterval ?s2 = None" "timers ?s2 = []"
    using toggle_off [OF on t1(1)] t1(2) by simp_all
  have m2: "fst (toggleAutoRefresh ?s1) = Inr ()"
    "switchEl ?s2 = Some (w\<lparr>active := False, aria_checked := Some ''false''\<rparr>)"
    using toggle_mirror [OF m1(2)] on by simp_all
  have a2: "fst (advance d ?s2) = 0"
    using t2(2) by (rule advance_no_timers)
  show ?thesis
    using on t1 m1 a1 off t2 m2 a2 toggle_flips by blast
qed

theorem toggle_on_then_off_witness:
  "\<not> isAutoRefreshEnabled samplePage \<and> autoRefreshInterval samplePage = None \<and>
   timers samplePage = [] \<and>
   switchEl samplePage = Some \<lparr>active = False, aria_checked = Some ''false''\<rparr> \<and>
   refreshIntervalMs samplePage = 30000 \<and>
   fst (advance 60000 (snd (toggleAutoRefresh samplePage))) = 2 \<and>
   timers (snd (toggleAutoRefresh (snd (toggleAutoRefresh samplePage)))) = [] \<and>
   fst (advance 60000 (snd (toggleAutoRefresh (snd (toggleAutoRefresh samplePage))))) = 0"
proof -
  have h: "\<not> isAutoRefreshEnabled samplePage" "autoRefreshInterval samplePage = None"
    "timers samplePage = []"
    "switchEl samplePage = Some \<lparr>active = False, aria_checked = Some ''false''\<rparr>"
    "refreshIntervalMs samplePage = 30000"
    by (simp_all add: samplePage_def newDashboard_def)
  show ?thesis
    using h toggle_on_then_off [OF h, of 60000] by simp
qed

subsection \<open>The refresh cycle\<close>

lemma setInnerHTML_present:
  "tokenTableBody s = Some old \<Longrightarrow> setInnerHTML m s = (Inr (), s\<lparr>tokenTableBody := Some m\<rparr>)"
  by (simp add: setInnerHTML_def)

lemma setInnerHTML_body:
  "tokenTableBody s \<noteq> None \<Longrightarrow> tokenTableBody (snd (setInnerHTML m s)) \<noteq> None"
  by (auto simp add: setInnerHTML_def)

lemma updateTokenTable_body:
  assumes "tokenTableBody s \<noteq> None"
  shows "tokenTableBody (snd (updateTokenTable B data s)) \<noteq> None"
  using assms setInnerHTML_body [OF assms]
  by (auto simp add: updateTokenTable_def showEmpty_def split: sum.splits prod.splits bool.splits)

lemma animateNumber_body:
  assumes "\<And>f s. tokenTableBody (upd f s) = tokenTableBody s"
  shows "tokenTableBody (snd (animateNumber B get upd v s)) = tokenTableBody s"
  by (simp add: animateNumber_def assms split: option.splits jsval.splits sum.splits)

lemma thenS_body:
  assumes "\<And>s. tokenTableBody (snd (f s)) = tokenTableBody s"
    and "\<And>s. tokenTableBody (snd (g s)) = tokenTableBody s"
  shows "tokenTableBody (snd (thenS f g s)) = tokenTableBody s"
proof (cases "f s")
  case (Pair r s')
  then have "tokenTableBody s' = tokenTableBody s"
    using assms(1) [of s] by simp
  then show ?thesis
    using Pair assms(2) [of s'] by (cases r) (simp_all add: thenS_def)
qed

lemma updateStatusBar_body:
  "tokenTableBody (snd (updateStatusBar B data s)) = tokenTableBody s"
proof (cases "getProp data ''total_tokens''")
  case (Inl e)
  then show ?thesis by (simp add: updateStatusBar_def)
next
  case (Inr tot)
  have "tokenTableBody (snd (thenS (animateNumber B totalTokens totalTokens_update (js_or tot (JNum (Fin 0))))
            (\<lambda>s'. case getProp data ''active_tokens'' of
                    Inl e \<Rightarrow> (Inl e, s')
                  | Inr act \<Rightarrow>
                      animateNumber B activeTokens activeTokens_update
                        (js_or act (JNum (Fin 0))) s') s)) = tokenTableBody s"
    by (rule thenS_body) (simp_all add: animateNumber_body split: sum.splits)
  then show ?thesis
    using Inr by (simp add: updateStatusBar_def)
qed

lemma updateLastUpdateTime_body:
  "tokenTableBody (snd (updateLastUpdateTime B s)) = tokenTableBody s"
  by (simp add: updateLastUpdateTime_def updateElement_def split: option.splits)

lemma updateLastUpdateTime_ok: "fst (updateLastUpdateTime B s) = Inr ()"
  by (simp add: updateLastUpdateTime_def updateElement_def split: option.splits)

lemma tryRefresh_body:
  assumes "tokenTableBody s \<noteq> None"
  shows "tokenTableBody (snd (tryRefresh B outcome s)) \<noteq> None"
proof (cases outcome)
  case (Inl e)
  then show ?thesis using assms by (simp add: tryRefresh_def)
next
  case (Inr r)
  show ?thesis
  proof (cases "ok r")
    case False
    then show ?thesis using Inr assms by (simp add: tryRefresh_def)
  next
    case True
    show ?thesis
    proof (cases "json r")
      case (Inl e)
      then show ?thesis using Inr True assms by (simp add: tryRefresh_def)
    next
      case data: (Inr data)
      obtain r1 s1 where u: "updateTokenTable B data s = (r1, s1)"
        by (cases "updateTokenTable B data s")
      have b1: "tokenTableBody s1 \<noteq> None"
        using updateTokenTable_body [OF assms, of B data] u by simp
      have "tokenTableBody (snd (thenS (updateStatusBar B data) (updateLastUpdateTime B) s1))
          = tokenTableBody s1"
        by (rule thenS_body) (simp_all add: updateStatusBar_body updateLastUpdateTime_body)
      then show ?thesis
        using Inr True data u b1 by (cases r1) (simp_all add: tryRefresh_def thenS_def)
    qed
  qed
qed

lemma showError_present:
  "tokenTableBody s = Some old \<Longrightarrow>
   showError B msg s = (Inr (), s\<lparr>tokenTableBody := Some (errorTemplate (escapeText msg))\<rparr>)"
  by (simp add: showError_def escapeHtml_JStr setInnerHTML_present)

lemma refreshTokens_present:
  assumes "tokenTableBody s = Some old"
  shows "refreshTokens B outcome s =
    (case tryRefresh B outcome (s\<lparr>tokenTableBody := Some loadingMarkup\<rparr>) of
       (Inr u, s') \<Rightarrow> (Inr (), s')
     | (Inl err, s') \<Rightarrow>
         (Inr (), s'\<lparr>tokenTableBody :=
                       Some (errorTemplate (escapeText (''Failed to load: '' @ message B err)))\<rparr>))"
proof -
  let ?s1 = "s\<lparr>tokenTableBody := Some loadingMarkup\<rparr>"
  obtain r2 s2 where t: "tryRefresh B outcome ?s1 = (r2, s2)"
    by (cases "tryRefresh B outcome ?s1")
  have "tokenTableBody s2 \<noteq> None"
    using tryRefresh_body [of ?s1 B outcome] t by simp
  then obtain b where b: "tokenTableBody s2 = Some b"
    by blast
  show ?thesis
    using assms t showError_present [OF b]
    by (cases r2) (simp_all add: refreshTokens_def showLoading_def setInnerHTML_present)
qed

lemma errorTemplate_text:
  "errorTemplate m =
     nl 12 @ ''<tr>'' @
     nl 16 @ ''<td colspan=\"7\">'' @
     nl 20 @ ''<div class=\"error\">'' @ m @ ''</div>'' @
     nl 16 @ ''</td>'' @
     nl 12 @ ''</tr>'' @
     nl 8"
  by (simp add: errorTemplate_def)

lemma emptyMarkup_text:
  "emptyMarkup =
     nl 12 @ ''<tr>'' @
     nl 16 @ ''<td colspan=\"7\">'' @
     nl 20 @ ''<div class=\"empty-state\">'' @
     nl 24 @ ''<div class=\"empty-state-icon\">~</div>'' @
     nl 24 @ ''<p>No token data available</p>'' @
     nl 20 @ ''</div>'' @
     nl 16 @ ''</td>'' @
     nl 12 @ ''</tr>'' @
     nl 8"
  by (simp add: emptyMarkup_def)

text \<open>
  C3. On a page that has the table body, \<^verbatim>\<open>refreshTokens\<close> returns normally for every outcome of
  the fetch. After a network error, a response whose status is not 2xx, or a body that does not
  decode, and in general whenever the \<^verbatim>\<open>try\<close> block raises, the table body is the error row:
  one cell spanning the table that holds a \<^verbatim>\<open>div\<close> of class \<^verbatim>\<open>error\<close> with the escaped text
  \<^verbatim>\<open>Failed to load: \<close> followed by the message of the failure.
\<close>

theorem refresh_never_throws:
  assumes "tokenTableBody s = Some old"
  shows "fst (refreshTokens B outcome s) = Inr () \<and>
    (\<forall>msg.
       (\<exists>e. outcome = Inl e \<and> msg = message B e) \<or>
       (\<exists>r. outcome = Inr r \<and> \<not> ok r \<and>
            msg = ''HTTP '' @ showNat (status r) @ '': '' @ statusText r) \<or>
       (\<exists>r e. outcome = Inr r \<and> ok r \<and> json r = Inl e \<and> msg = message B e) \<or>
       (\<exists>err s'. tryRefresh B outcome (s\<lparr>tokenTableBody := Some loadingMarkup\<rparr>) = (Inl err, s') \<and>
            msg = message B err) \<longrightarrow>
       tokenTableBody (snd (refreshTokens B outcome s)) =
         Some (nl 12 @ ''<tr>'' @
               nl 16 @ ''<td colspan=\"7\">'' @
               nl 20 @ ''<div class=\"error\">'' @ escapeText (''Failed to load: '' @ msg) @
                 ''</div>'' @
               nl 16 @ ''</td>'' @
               nl 12 @ ''</tr>'' @
               nl 8))"
proof -
  let ?s1 = "s\<lparr>tokenTableBody := Some loadingMarkup\<rparr>"
  have ok: "fst (refreshTokens B outcome s) = Inr ()"
    unfolding refreshTokens_present [OF assms] by (simp split: sum.splits prod.splits)
  have raised: "tokenTableBody (snd (refreshTokens B outcome s)) =
      Some (errorTemplate (escapeText (''Failed to load: '' @ message B err)))"
    if "tryRefresh B outcome ?s1 = (Inl err, s')" for err s'
    unfolding refreshTokens_present [OF assms] using that by simp
  have net: "tryRefresh B outcome ?s1 = (Inl e, ?s1)" if "outcome = Inl e" for e
    using that by (simp add: tryRefresh_def)
  have http: "tryRefresh B outcome ?s1 =
      (Inl (Error (''HTTP '' @ showNat (status r) @ '': '' @ statusText r)), ?s1)"
    if "outcome = Inr r" "\<not> ok r" for r
    using that by (simp add: tryRefresh_def)
  have dec: "tryRefresh B outcome ?s1 = (Inl e, ?s1)"
    if "outcome = Inr r" "ok r" "json r = Inl e" for r e
    using that by (simp add: tryRefresh_def)
  have "tokenTableBody (snd (refreshTokens B outcome s)) =
         Some (errorTemplate (escapeText (''Failed to load: '' @ msg)))"
    if "(\<exists>e. outcome = Inl e \<and> msg = message B e) \<or>
       (\<exists>r. outcome = Inr r \<and> \<not> ok r \<and>
            msg = ''HTTP '' @ showNat (status r) @ '': '' @ statusText r) \<or>
       (\<exists>r e. outcome = Inr r \<and> ok r \<and> json r = Inl e \<and> msg = message B e) \<or>
       (\<exists>err s'. tryRefresh B outcome ?s1 = (Inl err, s') \<and> msg = message B err)" for msg
    using that raised [OF net] raised [OF http] raised [OF dec] raised
    by (elim disjE exE conjE) simp_all
  then show ?thesis
    using ok unfolding errorTemplate_text by blast
qed

text \<open>
  The table body is needed: \<^verbatim>\<open>showLoading\<close> runs before the \<^verbatim>\<open>try\<close> block, and on a page without
  the element its assignment raises out of \<^verbatim>\<open>refreshTokens\<close>.
\<close>

lemma refresh_without_table_body:
  "tokenTableBody s = None \<Longrightarrow>
   refreshTokens B outcome s = (Inl (TypeError (WriteOfNull ''innerHTML'')), s)"
  by (simp add: refreshTokens_def showLoading_def setInnerHTML_def)

theorem refresh_never_throws_witness:
  "tokenTableBody samplePage = Some [] \<and>
   fst (refreshTokens sampleBrowser (Inl (Rejected ''Failed to fetch'')) samplePage) = Inr () \<and>
   tokenTableBody (snd (refreshTokens sampleBrowser (Inl (Rejected ''Failed to fetch'')) samplePage)) =
     Some (nl 12 @ ''<tr>'' @
           nl 16 @ ''<td colspan=\"7\">'' @
           nl 20 @ ''<div class=\"error\">Failed to load: Failed to fetch</div>'' @
           nl 16 @ ''</td>'' @
           nl 12 @ ''</tr>'' @
           nl 8) \<and>
   ok \<lparr>status = 200, statusText = ''OK'', json = Inl (Rejected ''Unexpected <token>'')\<rparr> \<and>
   fst (refreshTokens sampleBrowser
     (Inr \<lparr>status = 200, statusText = ''OK'', json = Inl (Rejected ''Unexpected <token>'')\<rparr>)
     samplePage) = Inr () \<and>
   tokenTableBody (snd (refreshTokens sampleBrowser
     (Inr \<lparr>status = 200, statusText = ''OK'', json = Inl (Rejected ''Unexpected <token>'')\<rparr>)
     samplePage)) =
     Some (nl 12 @ ''<tr>'' @
           nl 16 @ ''<td colspan=\"7\">'' @
           nl 20 @ ''<div class=\"error\">Failed to load: Unexpected &lt;token&gt;</div>'' @
           nl 16 @ ''</td>'' @
           nl 12 @ ''</tr>'' @
           nl 8)"
proof -
  have b: "tokenTableBody samplePage = Some []"
    by (simp add: samplePage_def newDashboard_def)
  have k: "ok \<lparr>status = 200, statusText = ''OK'', json = Inl (Rejected ''Unexpected <token>'')\<rparr>"
    by (simp add: ok_def)
  have e: "escapeText ''Failed to load: Failed to fetch'' = ''Failed to load: Failed to fetch''"
    "escapeText ''Failed to load: Unexpected <token>'' = ''Failed to load: Unexpected &lt;token&gt;''"
    by (simp_all add: escapeChar_def)
  have "fst (refreshTokens sampleBrowser (Inl (Rejected ''Failed to fetch'')) samplePage) = Inr () \<and>
      tokenTableBody (snd (refreshTokens sampleBrowser (Inl (Rejected ''Failed to fetch'')) samplePage)) =
        Some (nl 12 @ ''<tr>'' @
           nl 16 @ ''<td colspan=\"7\">'' @
           nl 20 @ ''<div class=\"error\">Failed to load: Failed to fetch</div>'' @
           nl 16 @ ''</td>'' @
           nl 12 @ ''</tr>'' @
           nl 8)"
    using e refresh_never_throws [OF b, of sampleBrowser "Inl (Rejected ''Failed to fetch'')"]
    by simp
  moreover have "fst (refreshTokens sampleBrowser
       (Inr \<lparr>status = 200, statusText = ''OK'', json = Inl (Rejected ''Unexpected <token>'')\<rparr>)
       samplePage) = Inr () \<and>
     tokenTableBody (snd (refreshTokens sampleBrowser
       (Inr \<lparr>status = 200, statusText = ''OK'', json = Inl (Rejected ''Unexpected <token>'')\<rparr>)
       samplePage)) =
       Some (nl 12 @ ''<tr>'' @
           nl 16 @ ''<td colspan=\"7\">'' @
           nl 20 @ ''<div class=\"error\">Failed to load: Unexpected &lt;token&gt;</div>'' @
           nl 16 @ ''</td>'' @
           nl 12 @ ''</tr>'' @
           nl 8)"
    using e k refresh_never_throws [OF b, of sampleBrowser
        "Inr \<lparr>status = 200, statusText = ''OK'', json = Inl (Rejected ''Unexpected <token>'')\<rparr>"]
    by simp
  ultimately show ?thesis
    using b k by simp
qed

lemma escapeText_plain_Cons: "plainChar c \<Longrightarrow> escapeText (c # cs) = c # escapeText cs"
  by (cases cs) (simp_all add: plainChar_def escapeChar_def)

lemma escapeText_plain_append:
  "\<forall>c \<in> set xs. plainChar c \<Longrightarrow> escapeText (xs @ ys) = xs @ escapeText ys"
  by (induction xs) (simp_all add: escapeText_plain_Cons)

lemma digit_plain: "d < 10 \<Longrightarrow> plainChar (''0123456789'' ! d)"
proof -
  assume "d < 10"
  then have "d \<in> {0, 1, 2, 3, 4, 5, 6, 7, 8, 9}"
    by auto
  then show ?thesis
    by (auto simp add: plainChar_def)
qed

lemma showNat_plain: "\<forall>c \<in> set (showNat n). plainChar c"
proof (induction n rule: showNat.induct)
  case (1 n)
  show ?case
  proof (cases "n < 10")
    case True
    then show ?thesis
      by (subst showNat.simps) (simp add: digit_plain)
  next
    case False
    have "n mod 10 < 10" by simp
    then have "plainChar (''0123456789'' ! (n mod 10))"
      by (rule digit_plain)
    then show ?thesis
      using False 1 by (subst showNat.simps) simp
  qed
qed

lemma escapeText_http:
  "escapeText (''Failed to load: '' @ ''HTTP '' @ showNat n @ '': '' @ txt) =
   ''Failed to load: HTTP '' @ showNat n @ '': '' @ escapeText txt"
proof -
  have p: "\<forall>c \<in> set ''Failed to load: HTTP ''. plainChar c"
    by (simp add: plainChar_def)
  have q: "\<forall>c \<in> set '': ''. plainChar c"
    by (simp add: plainChar_def)
  have "escapeText (''Failed to load: HTTP '' @ (showNat n @ ('': '' @ txt))) =
      ''Failed to load: HTTP '' @ (showNat n @ ('': '' @ escapeText txt))"
    by (simp only: escapeText_plain_append [OF p] escapeText_plain_append [OF showNat_plain]
        escapeText_plain_append [OF q])
  then show ?thesis
    by simp
qed

text \<open>
  C4. On a page that has the table body, a response whose status is not 2xx makes
  \<^verbatim>\<open>refreshTokens\<close> replace the table body by the error markup whose message is
  \<^verbatim>\<open>Failed to load: HTTP \<close>, the decimal status code, a colon and the escaped reason phrase; the
  digits of the status code occur in the table body.
\<close>

theorem http_error_shows_status:
  assumes "tokenTableBody s = Some old" and "\<not> ok r"
  shows "fst (refreshTokens B (Inr r) s) = Inr () \<and>
    tokenTableBody (snd (refreshTokens B (Inr r) s)) =
      Some (errorTemplate
        (''Failed to load: HTTP '' @ showNat (status r) @ '': '' @ escapeText (statusText r))) \<and>
    (\<exists>markup. tokenTableBody (snd (refreshTokens B (Inr r) s)) = Some markup \<and>
       sublist (showNat (status r)) markup)"
proof -
  have t: "tryRefresh B (Inr r) (s\<lparr>tokenTableBody := Some loadingMarkup\<rparr>) =
      (Inl (Error (''HTTP '' @ showNat (status r) @ '': '' @ statusText r)),
       s\<lparr>tokenTableBody := Some loadingMarkup\<rparr>)"
    using assms(2) by (simp add: tryRefresh_def)
  have r: "refreshTokens B (Inr r) s =
      (Inr (), s\<lparr>tokenTableBody := Some (errorTemplate
        (''Failed to load: HTTP '' @ showNat (status r) @ '': '' @ escapeText (statusText r)))\<rparr>)"
    unfolding refreshTokens_present [OF assms(1)] t
    using escapeText_http [of "status r" "statusText r"] by simp
  have "sublist (showNat (status r)) (errorTemplate
        (''Failed to load: HTTP '' @ showNat (status r) @ '': '' @ escapeText (statusText r)))"
  proof -
    have "errorTemplate
        (''Failed to load: HTTP '' @ showNat (status r) @ '': '' @ escapeText (statusText r)) =
      (nl 12 @ ''<tr>'' @ nl 16 @ ''<td colspan=\"7\">'' @ nl 20 @ ''<div class=\"error\">'' @
         ''Failed to load: HTTP '') @ showNat (status r) @
      ('': '' @ escapeText (statusText r) @ ''</div>'' @ nl 16 @ ''</td>'' @ nl 12 @ ''</tr>'' @
         nl 8)"
      by (simp add: errorTemplate_def)
    then show ?thesis
      unfolding sublist_def by blast
  qed
  then show ?thesis
    using r by simp
qed

theorem http_error_shows_status_witness:
  "tokenTableBody samplePage = Some [] \<and>
   \<not> ok \<lparr>status = 503, statusText = ''Service <Unavailable>'', json = Inl (Rejected [])\<rparr> \<and>
   tokenTableBody (snd (refreshTokens sampleBrowser
       (Inr \<lparr>status = 503, statusText = ''Service <Unavailable>'', json = Inl (Rejected [])\<rparr>)
       samplePage)) =
     Some (errorTemplate ''Failed to load: HTTP 503: Service &lt;Unavailable&gt;'')"
proof -
  have b: "tokenTableBody samplePage = Some []"
    by (simp add: samplePage_def newDashboard_def)
  have n: "\<not> ok \<lparr>status = 503, statusText = ''Service <Unavailable>'', json = Inl (Rejected [])\<rparr>"
    by (simp add: ok_def)
  show ?thesis
    using b n http_error_shows_status [OF b n, of sampleBrowser]
    by (simp add: escapeChar_def)
qed


lemma toNumber_primitive: "primitive v \<Longrightarrow> \<exists>n. toNumber B v = Inr n"
  by (simp add: toNumber_def toPrimitive_primitive)

lemma animateNumber_ok:
  assumes "primitive v"
  shows "fst (animateNumber B get upd v s) = Inr ()"
  using toNumber_primitive [OF assms, of B]
  by (auto simp add: animateNumber_def split: option.splits jsval.splits sum.splits)

lemma primitive_js_or_num: "primitive v \<Longrightarrow> primitive (js_or v (JNum n))"
  by (simp add: js_or_def)

lemma updateStatusBar_ok:
  assumes "getProp data ''total_tokens'' = Inr tot" and "primitive tot"
    and "getProp data ''active_tokens'' = Inr act" and "primitive act"
  shows "fst (updateStatusBar B data s) = Inr ()"
proof -
  obtain r1 s1 where a: "animateNumber B totalTokens totalTokens_update (js_or tot (JNum (Fin 0))) s = (r1, s1)"
    by (cases "animateNumber B totalTokens totalTokens_update (js_or tot (JNum (Fin 0))) s")
  have "r1 = Inr ()"
    using animateNumber_ok [OF primitive_js_or_num [OF assms(2)], of B totalTokens totalTokens_update "Fin 0" s] a
    by simp
  then show ?thesis
    using assms(1) assms(3) a
      animateNumber_ok [OF primitive_js_or_num [OF assms(4)], of B activeTokens activeTokens_update "Fin 0" s1]
    by (simp add: updateStatusBar_def thenS_def)
qed

lemma tokensEmpty_cases:
  "tokens = JUndefined \<or> tokens = JNull \<or> tokens = JArr [] \<Longrightarrow> tokensEmpty tokens = Inr True"
  by (auto simp add: tokensEmpty_def getProp_def strictEqNum_def)

text \<open>
  C5. On a page that has the table body, for a 2xx response whose body decodes to a value with
  \<^verbatim>\<open>tokens\<close> absent, \<^verbatim>\<open>null\<close> or the empty array, \<^verbatim>\<open>updateTokenTable\<close> sets the table body to the
  empty-state row: one cell spanning the table that holds the \<^verbatim>\<open>empty-state\<close> block with its icon
  and the text \<^verbatim>\<open>No token data available\<close>; there is no token row in it. When the two counters
  of the body are absent or primitive, so that the status bar raises nothing afterwards,
  \<^verbatim>\<open>refreshTokens\<close> returns normally and the table body still holds the empty-state row at its
  end.
\<close>

theorem empty_list_shows_placeholder:
  assumes "tokenTableBody s = Some old"
    and "ok r" and "json r = Inr data"
    and "getProp data ''tokens'' = Inr tokens"
    and "tokens = JUndefined \<or> tokens = JNull \<or> tokens = JArr []"
  shows "updateTokenTable B data s =
      (Inr (),
       s\<lparr>tokenTableBody :=
           Some (nl 12 @ ''<tr>'' @
                 nl 16 @ ''<td colspan=\"7\">'' @
                 nl 20 @ ''<div class=\"empty-state\">'' @
                 nl 24 @ ''<div class=\"empty-state-icon\">~</div>'' @
                 nl 24 @ ''<p>No token data available</p>'' @
                 nl 20 @ ''</div>'' @
                 nl 16 @ ''</td>'' @
                 nl 12 @ ''</tr>'' @
                 nl 8)\<rparr>) \<and>
    \<not> sublist ''<tr data-index''
       (nl 12 @ ''<tr>'' @
        nl 16 @ ''<td colspan=\"7\">'' @
        nl 20 @ ''<div class=\"empty-state\">'' @
        nl 24 @ ''<div class=\"empty-state-icon\">~</div>'' @
        nl 24 @ ''<p>No token data available</p>'' @
        nl 20 @ ''</div>'' @
        nl 16 @ ''</td>'' @
        nl 12 @ ''</tr>'' @
        nl 8) \<and>
    (\<forall>tot act.
       getProp data ''total_tokens'' = Inr tot \<and> primitive tot \<and>
       getProp data ''active_tokens'' = Inr act \<and> primitive act \<longrightarrow>
         fst (refreshTokens B (Inr r) s) = Inr () \<and>
         tokenTableBody (snd (refreshTokens B (Inr r) s)) =
           Some (nl 12 @ ''<tr>'' @
                 nl 16 @ ''<td colspan=\"7\">'' @
                 nl 20 @ ''<div class=\"empty-state\">'' @
                 nl 24 @ ''<div class=\"empty-state-icon\">~</div>'' @
                 nl 24 @ ''<p>No token data available</p>'' @
                 nl 20 @ ''</div>'' @
                 nl 16 @ ''</td>'' @
                 nl 12 @ ''</tr>'' @
                 nl 8))"
proof -
  let ?s1 = "s\<lparr>tokenTableBody := Some loadingMarkup\<rparr>"
  let ?s2 = "?s1\<lparr>tokenTableBody := Some emptyMarkup\<rparr>"
  have u0: "updateTokenTable B data s = (Inr (), s\<lparr>tokenTableBody := Some emptyMarkup\<rparr>)"
    using assms(1) assms(4) tokensEmpty_cases [OF assms(5)]
    by (simp add: updateTokenTable_def showEmpty_def setInnerHTML_def)
  have u: "updateTokenTable B data ?s1 = (Inr (), ?s2)"
    using assms(4) tokensEmpty_cases [OF assms(5)]
    by (simp add: updateTokenTable_def showEmpty_def setInnerHTML_def)
  have n: "\<not> sublist ''<tr data-index'' emptyMarkup"
    by (simp add: emptyMarkup_def nl_def sublist_code eval_nat_numeral)
  have "fst (refreshTokens B (Inr r) s) = Inr () \<and>
      tokenTableBody (snd (refreshTokens B (Inr r) s)) = Some emptyMarkup"
    if c: "getProp data ''total_tokens'' = Inr tot" "primitive tot"
      "getProp data ''active_tokens'' = Inr act" "primitive act" for tot act
  proof -
    obtain r3 s3 where b: "updateStatusBar B data ?s2 = (r3, s3)"
      by (cases "updateStatusBar B data ?s2")
    have r3: "r3 = Inr ()"
      using updateStatusBar_ok [OF c, of B ?s2] b by simp
    have s3: "tokenTableBody s3 = Some emptyMarkup"
      using updateStatusBar_body [of B data ?s2] b by simp
    obtain r4 s4 where l: "updateLastUpdateTime B s3 = (r4, s4)"
      by (cases "updateLastUpdateTime B s3")
    have r4: "r4 = Inr ()"
      using updateLastUpdateTime_ok [of B s3] l by simp
    have s4: "tokenTableBody s4 = Some emptyMarkup"
      using updateLastUpdateTime_body [of B s3] l s3 by simp
    have t: "tryRefresh B (Inr r) ?s1 = (Inr (), s4)"
      using assms(2) assms(3) u b r3 l r4 by (simp add: tryRefresh_def thenS_def)
    have "refreshTokens B (Inr r) s = (Inr (), s4)"
      unfolding refreshTokens_present [OF assms(1)] t by simp
    then show ?thesis
      using s4 by simp
  qed
  then show ?thesis
    using u0 n unfolding emptyMarkup_text by blast
qed

theorem empty_list_shows_placeholder_witness:
  "tokenTableBody samplePage = Some [] \<and> ok emptyResponse \<and>
   getProp (JObj [(''tokens'', JArr []), (''total_tokens'', JNum (Fin 0))]) ''tokens'' = Inr (JArr []) \<and>
   fst (refreshTokens sampleBrowser (Inr emptyResponse) samplePage) = Inr () \<and>
   tokenTableBody (snd (refreshTokens sampleBrowser (Inr emptyResponse) samplePage)) =
     Some (nl 12 @ ''<tr>'' @
           nl 16 @ ''<td colspan=\"7\">'' @
           nl 20 @ ''<div class=\"empty-state\">'' @
           nl 24 @ ''<div class=\"empty-state-icon\">~</div>'' @
           nl 24 @ ''<p>No token data available</p>'' @
           nl 20 @ ''</div>'' @
           nl 16 @ ''</td>'' @
           nl 12 @ ''</tr>'' @
           nl 8)"
proof -
  let ?data = "JObj [(''tokens'', JArr []), (''total_tokens'', JNum (Fin 0))]"
  have b: "tokenTableBody samplePage = Some []"
    by (simp add: samplePage_def newDashboard_def)
  have k: "ok emptyResponse" and j: "json emptyResponse = Inr ?data"
    by (simp_all add: emptyResponse_def ok_def)
  have t: "getProp ?data ''tokens'' = Inr (JArr [])"
    and c: "getProp ?data ''total_tokens'' = Inr (JNum (Fin 0))"
    and a: "getProp ?data ''active_tokens'' = Inr JUndefined"
    by (simp_all add: getProp_def)
  have e: "JArr [] = JUndefined \<or> JArr [] = JNull \<or> JArr [] = JArr []"
    by simp
  have p: "primitive (JNum (Fin 0))" "primitive JUndefined"
    by simp_all
  show ?thesis
    using b k t c a p empty_list_shows_placeholder [OF b k j t e, of sampleBrowser]
    by simp
qed

text \<open>
  The example of the specification renders one row with the label \<^verbatim>\<open>Low\<close>, and both counters
  show 1.
\<close>

lemma spec_example:
  "refreshTokens sampleBrowser
     (Inr \<lparr>status = 200, statusText = ''OK'', json = Inr exampleData\<rparr>) samplePage =
   (Inr (),
    samplePage\<lparr>tokenTableBody :=
                 Some (tokenRowTemplate ''0'' ''a@b.com'' ''N/A'' ''social'' ''3'' ''-'' ''-''
                         ''status-low'' ''Low''),
               totalTokens := Some ''1'', activeTokens := Some ''1'',
               lastUpdate := Some ''12:00:00''\<rparr>)"
  by (simp add: refreshTokens_def showLoading_def setInnerHTML_def samplePage_def newDashboard_def
      tryRefresh_def ok_def exampleData_def thenS_def updateTokenTable_def getProp_def
      tokensEmpty_def strictEqNum_def tokenRows_def enumerate_eq_zip readToken_def
      createTokenRow_def getStatusClass_def getStatusText_def isExpired_def coalesce_def
      nullish_def lessEqNum_Fin js_or_def escapeHtml_JStr escapeChar_def numToString_def
      formatDateTime_def updateStatusBar_def animateNumber_def toNumber_def
      toPrimitive_def updateLastUpdateTime_def updateElement_def sampleBrowser_def)

subsection \<open>The flag and the timer\<close>

lemma sameController_refl: "sameController s s"
  by (simp add: sameController_def)

lemma sameController_trans: "sameController s s' \<Longrightarrow> sameController s' s'' \<Longrightarrow> sameController s s''"
  by (simp add: sameController_def)

lemma setInnerHTML_controller: "sameController s (snd (setInnerHTML m s))"
  by (simp add: sameController_def setInnerHTML_def split: option.splits)

lemma updateTokenTable_controller: "sameController s (snd (updateTokenTable B data s))"
  using setInnerHTML_controller
  by (auto simp add: updateTokenTable_def showEmpty_def sameController_refl
      split: sum.splits prod.splits bool.splits)

lemma animateNumber_controller:
  assumes "\<And>f s. sameController s (upd f s)"
  shows "sameController s (snd (animateNumber B get upd v s))"
  by (simp add: animateNumber_def assms sameController_refl
      split: option.splits jsval.splits sum.splits)

lemma thenS_controller:
  assumes "\<And>s. sameController s (snd (f s))" and "\<And>s. sameController s (snd (g s))"
  shows "sameController s (snd (thenS f g s))"
proof (cases "f s")
  case (Pair r s')
  then have "sameController s s'"
    using assms(1) [of s] by simp
  then show ?thesis
    using Pair assms(2) [of s'] by (cases r) (auto simp add: thenS_def intro: sameController_trans)
qed

lemma updateStatusBar_controller: "sameController s (snd (updateStatusBar B data s))"
proof (cases "getProp data ''total_tokens''")
  case (Inl e)
  then show ?thesis by (simp add: updateStatusBar_def sameController_refl)
next
  case (Inr tot)
  have "sameController s (snd (thenS (animateNumber B totalTokens totalTokens_update (js_or tot (JNum (Fin 0))))
            (\<lambda>s'. case getProp data ''active_tokens'' of
                    Inl e \<Rightarrow> (Inl e, s')
                  | Inr act \<Rightarrow>
                      animateNumber B activeTokens activeTokens_update
                        (js_or act (JNum (Fin 0))) s') s))"
  proof (rule thenS_controller)
    show "sameController s (snd (animateNumber B totalTokens totalTokens_update
        (js_or tot (JNum (Fin 0))) s))" for s
      by (rule animateNumber_controller) (simp add: sameController_def)
    show "sameController s (snd (case getProp data ''active_tokens'' of
        Inl e \<Rightarrow> (Inl e, s)
      | Inr act \<Rightarrow>
          animateNumber B activeTokens activeTokens_update (js_or act (JNum (Fin 0))) s))" for s
    proof (cases "getProp data ''active_tokens''")
      case (Inl e)
      then show ?thesis by (simp add: sameController_refl)
    next
      case (Inr act)
      have "sameController s (snd (animateNumber B activeTokens activeTokens_update
          (js_or act (JNum (Fin 0))) s))"
        by (rule animateNumber_controller) (simp add: sameController_def)
      then show ?thesis using Inr by simp
    qed
  qed
  then show ?thesis
    using Inr by (simp add: updateStatusBar_def)
qed

lemma updateLastUpdateTime_controller: "sameController s (snd (updateLastUpdateTime B s))"
  by (simp add: updateLastUpdateTime_def updateElement_def sameController_def split: option.splits)

lemma tryRefresh_controller: "sameController s (snd (tryRefresh B outcome s))"
proof -
  have "sameController s (snd (thenS (updateTokenTable B data)
          (thenS (updateStatusBar B data) (updateLastUpdateTime B)) s))" for data
    by (intro thenS_controller updateTokenTable_controller updateStatusBar_controller
        updateLastUpdateTime_controller)
  then show ?thesis
    by (auto simp add: tryRefresh_def sameController_refl split: sum.splits)
qed

lemma showError_controller: "sameController s (snd (showError B msg s))"
  by (simp add: showError_def escapeHtml_JStr setInnerHTML_controller)

lemma refreshTokens_controller: "sameController s (snd (refreshTokens B outcome s))"
proof -
  obtain r1 s1 where a: "showLoading s = (r1, s1)"
    by (cases "showLoading s")
  have c1: "sameController s s1"
    using setInnerHTML_controller [of s loadingMarkup] a by (simp add: showLoading_def)
  obtain r2 s2 where b: "tryRefresh B outcome s1 = (r2, s2)"
    by (cases "tryRefresh B outcome s1")
  have c2: "sameController s s2"
    using tryRefresh_controller [of s1 B outcome] b c1 by (auto intro: sameController_trans)
  have c3: "sameController s (snd (showError B m s2))" for m
    using showError_controller [of s2 B m] c2 by (auto intro: sameController_trans)
  show ?thesis
    using a b c1 c2 c3 by (cases r1; cases r2) (simp_all add: refreshTokens_def)
qed

lemma constructed_state:
  "\<not> isAutoRefreshEnabled (snd (init B outcome (newDashboard tbody tot act upd sw))) \<and>
   autoRefreshInterval (snd (init B outcome (newDashboard tbody tot act upd sw))) = None \<and>
   timers (snd (init B outcome (newDashboard tbody tot act upd sw))) = [] \<and>
   switchEl (snd (init B outcome (newDashboard tbody tot act upd sw))) = sw \<and>
   refreshIntervalMs (snd (init B outcome (newDashboard tbody tot act upd sw))) = 30000"
  using refreshTokens_controller [of "newDashboard tbody tot act upd sw" B outcome]
  by (simp add: init_def sameController_def newDashboard_def)

text \<open>
  C8. The flag agrees with the timer in the state the constructor builds, and \<^verbatim>\<open>startAutoRefresh\<close>,
  \<^verbatim>\<open>stopAutoRefresh\<close>, \<^verbatim>\<open>toggleAutoRefresh\<close> (also when it raises for want of a switch) and
  \<^verbatim>\<open>refreshTokens\<close> lead from a state where the flag agrees with the timer, and the handle held
  is one that \<^verbatim>\<open>setInterval\<close> issued, to a state of the same kind.
\<close>

theorem flag_matches_timer:
  "flagMatchesTimer (newDashboard tbody tot act upd sw) \<and>
   handleIssued (newDashboard tbody tot act upd sw) \<and>
   (flagMatchesTimer s \<and> handleIssued s \<longrightarrow>
      flagMatchesTimer (startAutoRefresh s) \<and> handleIssued (startAutoRefresh s) \<and>
      flagMatchesTimer (stopAutoRefresh s) \<and> handleIssued (stopAutoRefresh s) \<and>
      flagMatchesTimer (snd (toggleAutoRefresh s)) \<and> handleIssued (snd (toggleAutoRefresh s)) \<and>
      flagMatchesTimer (snd (refreshTokens B outcome s)) \<and>
      handleIssued (snd (refreshTokens B outcome s)))"
proof -
  have "flagMatchesTimer (snd (refreshTokens B outcome s)) = flagMatchesTimer s"
    "handleIssued (snd (refreshTokens B outcome s)) = handleIssued s"
    using refreshTokens_controller [of s B outcome]
    by (simp_all add: sameController_def flagMatchesTimer_def handleIssued_def)
  then show ?thesis
    by (auto simp add: flagMatchesTimer_def handleIssued_def newDashboard_def
        toggleAutoRefresh_def withSwitch_fields startAutoRefresh_fields stopAutoRefresh_fields
        split: option.splits)
qed

theorem flag_matches_timer_witness:
  "flagMatchesTimer samplePage \<and> handleIssued samplePage \<and>
   flagMatchesTimer (snd (toggleAutoRefresh samplePage)) \<and>
   isAutoRefreshEnabled (snd (toggleAutoRefresh samplePage)) \<and>
   autoRefreshInterval (snd (toggleAutoRefresh samplePage)) = Some 1"
proof -
  have i: "flagMatchesTimer samplePage \<and> handleIssued samplePage"
    using flag_matches_timer [of "Some []" "Some ''7''" "Some ''7''" "Some ''-''"
        "Some \<lparr>active = False, aria_checked = Some ''false''\<rparr>" samplePage]
    by (simp add: samplePage_def)
  then have "flagMatchesTimer (snd (toggleAutoRefresh samplePage))"
    using flag_matches_timer [of "Some []" "Some ''7''" "Some ''7''" "Some ''-''"
        "Some \<lparr>active = False, aria_checked = Some ''false''\<rparr>" samplePage]
    by blast
  moreover have "isAutoRefreshEnabled (snd (toggleAutoRefresh samplePage))"
    "autoRefreshInterval (snd (toggleAutoRefresh samplePage)) = Some 1"
    by (simp_all add: toggleAutoRefresh_def withSwitch_fields startAutoRefresh_fields
        samplePage_def newDashboard_def)
  ultimately show ?thesis
    using i by simp
qed

end
